theory Spec2Isabelle
  imports Main "HOL-Library.Word"
begin

section \<open>Data model of the variable graph (src/ssa.cpp)\<close>

type_synonym u32 = "32 word"

text \<open>\<^verbatim>\<open>size_t\<close> of the 64-bit targets the library is built for.\<close>
type_synonym size_t = "64 word"

text \<open>A \<^verbatim>\<open>void *\<close>: an address, \<^verbatim>\<open>nullptr\<close> is 0.\<close>
type_synonym ptr = "64 word"

text \<open>
  The enumerators that \<^verbatim>\<open>jit_type_size\<close> and \<^verbatim>\<open>jit_type_name\<close> switch over. The variable
  type travels as a \<^verbatim>\<open>uint32_t\<close>; the numbering is the one of the enumeration in
  include/enoki/jit.h (Invalid, Int8, UInt8, Int16, UInt16, Int32, UInt32, Int64, UInt64,
  Float16, Float32, Float64, Bool, Pointer).
\<close>

definition Invalid :: u32 where "Invalid = 0"
definition Int8 :: u32 where "Int8 = 1"
definition UInt8 :: u32 where "UInt8 = 2"
definition Int16 :: u32 where "Int16 = 3"
definition UInt16 :: u32 where "UInt16 = 4"
definition Int32 :: u32 where "Int32 = 5"
definition UInt32 :: u32 where "UInt32 = 6"
definition Int64 :: u32 where "Int64 = 7"
definition UInt64 :: u32 where "UInt64 = 8"
definition Float16 :: u32 where "Float16 = 9"
definition Float32 :: u32 where "Float32 = 10"
definition Float64 :: u32 where "Float64 = 11"
definition Bool :: u32 where "Bool = 12"
definition Pointer :: u32 where "Pointer = 13"

text \<open>
  How a call ends when it does not return normally: \<^verbatim>\<open>jit_raise\<close> throws an exception the
  caller can catch, \<^verbatim>\<open>jit_fail\<close> terminates the application, and \<open>Crash\<close> stands for a
  null or dangling pointer being dereferenced (\<^verbatim>\<open>strdup(nullptr)\<close>,
  \<^verbatim>\<open>active_stream->todo\<close> without a stream). The string is the message of the source, without
  its formatted arguments.
\<close>

datatype error = Raise string | Fail string | Crash string

text \<open>
  The fields of \<^verbatim>\<open>struct Variable\<close> that ssa.cpp reads and writes. \<open>dep\<close> is the array
  \<^verbatim>\<open>uint32_t dep[3]\<close>; \<open>stmt\<close> and \<open>label\<close> are \<^verbatim>\<open>char *\<close>, \<open>None\<close> being \<^verbatim>\<open>nullptr\<close>.
\<close>

record Variable =
  stmt :: "string option"
  type :: u32
  size_v :: u32
  dep :: "u32 \<times> u32 \<times> u32"
  extra_dep :: u32
  data :: ptr
  tsize :: u32
  ref_count_ext :: u32
  ref_count_int :: u32
  free_variable :: bool
  direct_pointer :: bool
  side_effect :: bool
  dirty :: bool
  label :: "string option"

text \<open>
  Modelled from the spec: the declaration of \<^verbatim>\<open>struct Variable\<close> (internal.h) is not part of
  the sources at hand, so the value of a default-constructed \<^verbatim>\<open>Variable v;\<close> is taken from
  the data model of the specification: no statement, no operands (id 0 is the reserved null
  id), null data, both reference counts zero, all flags cleared.
\<close>

definition Variable0 :: Variable where
  "Variable0 = \<lparr> stmt = None, type = Invalid, size_v = 0, dep = (0, 0, 0), extra_dep = 0,
     data = 0, tsize = 0, ref_count_ext = 0, ref_count_int = 0, free_variable = False,
     direct_pointer = False, side_effect = False, dirty = False, label = None \<rparr>"

text \<open>Of a \<^verbatim>\<open>Stream\<close>, ssa.cpp only touches the pending set \<^verbatim>\<open>todo\<close>.\<close>

record Stream =
  todo :: "u32 set"

text \<open>
  The global \<^verbatim>\<open>state\<close> together with the thread-local \<^verbatim>\<open>active_stream\<close>. \<^verbatim>\<open>Stream\<close> objects
  live on the heap: \<open>streams\<close> maps the address of a stream to its contents, and
  \<open>active_stream\<close> is a pointer into it (\<open>None\<close> is \<^verbatim>\<open>nullptr\<close>). The key type \<open>'k\<close> of the
  CSE table \<^verbatim>\<open>variable_from_key\<close> is a parameter, see \<open>VariableKey\<close> below.
\<close>

record 'k jit_state =
  variables :: "u32 \<rightharpoonup> Variable"
  variable_from_key :: "'k \<rightharpoonup> u32"
  variable_from_ptr :: "ptr \<rightharpoonup> u32"
  variable_index :: u32
  scatter_gather_operand :: u32
  streams :: "nat \<rightharpoonup> Stream"
  active_stream :: "nat option"

text \<open>
  A call either ends with an error, in the state it had reached, or returns a value and the
  new state.
\<close>

type_synonym ('k, 'a) result = "(error \<times> 'k jit_state) + ('a \<times> 'k jit_state)"

text \<open>
  What ssa.cpp uses but does not define:
  \<^item> \<open>VariableKey\<close>: the constructor \<^verbatim>\<open>VariableKey(const Variable &)\<close> (internal.h), that is, the
    part of a variable that the CSE table compares;
  \<^item> \<open>jit_eval\<close>: the evaluator (eval.cpp);
  \<^item> \<open>ENOKI_CUDA\<close>: whether the preprocessor symbol is defined for the build;
  \<^item> \<open>strcat_ftz\<close>: the statement left behind by \<^verbatim>\<open>strcat(offset, offset + 4)\<close> in the CUDA
    build. Source and destination overlap there, which C leaves undefined.
  They are parameters of the model.
\<close>

record 'k env =
  VariableKey :: "Variable \<Rightarrow> 'k"
  jit_eval :: "'k jit_state \<Rightarrow> (error \<times> 'k jit_state) + 'k jit_state"
  ENOKI_CUDA :: bool
  strcat_ftz :: "string \<Rightarrow> string"

text \<open>
  Modelled from the spec: \<^verbatim>\<open>struct VariableKey\<close> is not part of the sources at hand. The
  specification keys CSE by type, statement text, operand ids and size (its backend component
  has no counterpart among the fields ssa.cpp sets). Used for concrete runs of the model only;
  the general theorems hold for every key.
\<close>

definition spec_key :: "Variable \<Rightarrow> u32 \<times> string option \<times> (u32 \<times> u32 \<times> u32) \<times> u32" where
  "spec_key v = (type v, stmt v, dep v, size_v v)"

section \<open>Type queries\<close>

definition jit_type_size :: "u32 \<Rightarrow> error + nat" where
  "jit_type_size t =
     (if t = UInt8 \<or> t = Int8 \<or> t = Bool then Inr 1
      else if t = UInt16 \<or> t = Int16 then Inr 2
      else if t = UInt32 \<or> t = Int32 \<or> t = Float32 then Inr 4
      else if t = UInt64 \<or> t = Int64 \<or> t = Pointer \<or> t = Float64 then Inr 8
      else Inl (Fail ''jit_type_size(): invalid type!''))"

definition jit_type_name :: "u32 \<Rightarrow> error + string" where
  "jit_type_name t =
     (if t = Int8 then Inr ''i8 ''
      else if t = UInt8 then Inr ''u8 ''
      else if t = Int16 then Inr ''i16''
      else if t = UInt16 then Inr ''u16''
      else if t = Int32 then Inr ''i32''
      else if t = UInt32 then Inr ''u32''
      else if t = Int64 then Inr ''i64''
      else if t = UInt64 then Inr ''u64''
      else if t = Float16 then Inr ''f16''
      else if t = Float32 then Inr ''f32''
      else if t = Float64 then Inr ''f64''
      else if t = Bool then Inr ''msk''
      else if t = Pointer then Inr ''ptr''
      else Inl (Fail ''jit_type_name(): invalid type!''))"

section \<open>Reference counting\<close>

text \<open>Access a variable by id; \<^verbatim>\<open>jit_fail\<close> if it does not exist.\<close>

definition jit_var :: "'k jit_state \<Rightarrow> u32 \<Rightarrow> (error \<times> 'k jit_state) + Variable" where
  "jit_var s index =
     (case variables s index of
        None \<Rightarrow> Inl (Fail ''jit_var(): unknown variable!'', s)
      | Some v \<Rightarrow> Inr v)"

text \<open>
  A \<^verbatim>\<open>Variable *\<close> obtained from \<^verbatim>\<open>jit_var(index)\<close> or from \<^verbatim>\<open>try_emplace\<close> points at the table
  entry of \<open>index\<close>; a write through it is an update of that entry.
\<close>

definition update_var :: "u32 \<Rightarrow> (Variable \<Rightarrow> Variable) \<Rightarrow> 'k jit_state \<Rightarrow> 'k jit_state" where
  "update_var index f s =
     (case variables s index of
        None \<Rightarrow> s
      | Some v \<Rightarrow> s\<lparr>variables := (variables s)(index \<mapsto> f v)\<rparr>)"

text \<open>\<^verbatim>\<open>jit_inc_ref_ext(uint32_t, Variable *)\<close> and \<^verbatim>\<open>jit_inc_ref_int(uint32_t, Variable *)\<close>.\<close>

definition jit_inc_ref_ext_v :: "'k jit_state \<Rightarrow> u32 \<Rightarrow> 'k jit_state" where
  "jit_inc_ref_ext_v s index = update_var index (\<lambda>v. v\<lparr>ref_count_ext := ref_count_ext v + 1\<rparr>) s"

definition jit_inc_ref_int_v :: "'k jit_state \<Rightarrow> u32 \<Rightarrow> 'k jit_state" where
  "jit_inc_ref_int_v s index = update_var index (\<lambda>v. v\<lparr>ref_count_int := ref_count_int v + 1\<rparr>) s"

text \<open>\<^verbatim>\<open>jit_inc_ref_ext(uint32_t)\<close> and \<^verbatim>\<open>jit_inc_ref_int(uint32_t)\<close>.\<close>

definition jit_inc_ref_ext :: "'k jit_state \<Rightarrow> u32 \<Rightarrow> (error \<times> 'k jit_state) + 'k jit_state" where
  "jit_inc_ref_ext s index =
     (if index \<noteq> 0 then
        (case jit_var s index of
           Inl e \<Rightarrow> Inl e
         | Inr v \<Rightarrow> Inr (jit_inc_ref_ext_v s index))
      else Inr s)"

definition jit_inc_ref_int :: "'k jit_state \<Rightarrow> u32 \<Rightarrow> (error \<times> 'k jit_state) + 'k jit_state" where
  "jit_inc_ref_int s index =
     (if index \<noteq> 0 then
        (case jit_var s index of
           Inl e \<Rightarrow> Inl e
         | Inr v \<Rightarrow> Inr (jit_inc_ref_int_v s index))
      else Inr s)"

text \<open>\<^verbatim>\<open>active_stream->todo.erase(index)\<close> and \<^verbatim>\<open>stream->todo.insert(idx)\<close>.\<close>

definition todo_erase :: "'k jit_state \<Rightarrow> nat option \<Rightarrow> u32 \<Rightarrow> (error \<times> 'k jit_state) + 'k jit_state" where
  "todo_erase s stream index =
     (case stream of
        None \<Rightarrow> Inl (Crash ''null stream'', s)
      | Some a \<Rightarrow>
          (case streams s a of
             None \<Rightarrow> Inl (Crash ''dangling stream'', s)
           | Some st \<Rightarrow> Inr (s\<lparr>streams := (streams s)(a \<mapsto> st\<lparr>todo := todo st - {index}\<rparr>)\<rparr>)))"

definition todo_insert :: "'k jit_state \<Rightarrow> nat \<Rightarrow> u32 \<Rightarrow> (error \<times> 'k jit_state) + 'k jit_state" where
  "todo_insert s a idx =
     (case streams s a of
        None \<Rightarrow> Inl (Crash ''dangling stream'', s)
      | Some st \<Rightarrow> Inr (s\<lparr>streams := (streams s)(a \<mapsto> st\<lparr>todo := insert idx (todo st)\<rparr>)\<rparr>))"

text \<open>
  \<^verbatim>\<open>jit_dec_ref_ext\<close>, \<^verbatim>\<open>jit_dec_ref_int\<close> and the cleanup handler \<^verbatim>\<open>jit_var_free\<close> call each
  other. Releasing device memory and the two strings (\<^verbatim>\<open>jit_free\<close>, \<^verbatim>\<open>free\<close>) leaves the
  modelled state untouched.
\<close>

function jit_dec_ref_ext :: "'k env \<Rightarrow> 'k jit_state \<Rightarrow> u32 \<Rightarrow> (error \<times> 'k jit_state) + 'k jit_state"
  and jit_dec_ref_int :: "'k env \<Rightarrow> 'k jit_state \<Rightarrow> u32 \<Rightarrow> (error \<times> 'k jit_state) + 'k jit_state"
  and jit_var_free :: "'k env \<Rightarrow> 'k jit_state \<Rightarrow> u32 \<Rightarrow> Variable \<Rightarrow> (error \<times> 'k jit_state) + 'k jit_state"
where
  "jit_dec_ref_ext E s index =
     (if index = 0 \<or> variables s = Map.empty then Inr s
      else
        (case variables s index of
           None \<Rightarrow> Inl (Fail ''jit_var(): unknown variable!'', s)
         | Some v \<Rightarrow>
             if ref_count_ext v = 0 then
               Inl (Fail ''jit_dec_ref_ext(): variable has no external references!'', s)
             else
               (let v' = v\<lparr>ref_count_ext := ref_count_ext v - 1\<rparr>;
                    s1 = s\<lparr>variables := (variables s)(index \<mapsto> v')\<rparr>
                in
                  (case (if ref_count_ext v' = 0 then todo_erase s1 (active_stream s1) index
                         else Inr s1) of
                     Inl e \<Rightarrow> Inl e
                   | Inr s2 \<Rightarrow>
                       if ref_count_ext v' = 0 \<and> ref_count_int v' = 0
                       then jit_var_free E s2 index v'
                       else Inr s2))))"
| "jit_dec_ref_int E s index =
     (if index = 0 \<or> variables s = Map.empty then Inr s
      else
        (case variables s index of
           None \<Rightarrow> Inl (Fail ''jit_var(): unknown variable!'', s)
         | Some v \<Rightarrow>
             if ref_count_int v = 0 then
               Inl (Fail ''jit_dec_ref_int(): variable has no internal references!'', s)
             else
               (let v' = v\<lparr>ref_count_int := ref_count_int v - 1\<rparr>;
                    s1 = s\<lparr>variables := (variables s)(index \<mapsto> v')\<rparr>
                in
                  if ref_count_ext v' = 0 \<and> ref_count_int v' = 0
                  then jit_var_free E s1 index v'
                  else Inr s1)))"
| "jit_var_free E s index v =
     (let s1 = s\<lparr>variable_from_key := (variable_from_key s)(VariableKey E v := None)\<rparr>
      in
        (case (if direct_pointer v then
                 (case variable_from_ptr s1 (data v) of
                    None \<Rightarrow> Inl (Fail ''jit_var_free(): direct pointer not found!'', s1)
                  | Some _ \<Rightarrow>
                      Inr (s1\<lparr>variable_from_ptr := (variable_from_ptr s1)(data v := None)\<rparr>))
               else Inr s1) of
           Inl e \<Rightarrow> Inl e
         | Inr s2 \<Rightarrow>
             (let s3 = s2\<lparr>variables := (variables s2)(index := None)\<rparr>
              in
                (case jit_dec_ref_int E s3 (fst (dep v)) of
                   Inl e \<Rightarrow> Inl e
                 | Inr s4 \<Rightarrow>
                     (case jit_dec_ref_int E s4 (fst (snd (dep v))) of
                        Inl e \<Rightarrow> Inl e
                      | Inr s5 \<Rightarrow>
                          (case jit_dec_ref_int E s5 (snd (snd (dep v))) of
                             Inl e \<Rightarrow> Inl e
                           | Inr s6 \<Rightarrow> jit_dec_ref_ext E s6 (extra_dep v)))))))"
  by pat_completeness auto



lemma todo_erase_variables:
  "todo_erase s a i = Inr s' \<Longrightarrow> variables s' = variables s"
  by (auto simp: todo_erase_def split: option.splits)

lemma dec_ref_dom_mono_p:
  "jit_dec_ref_ext_jit_dec_ref_int_jit_var_free_dom (Inl (E, s, i)) \<Longrightarrow>
     (\<forall>s'. jit_dec_ref_ext E s i = Inr s' \<longrightarrow> dom (variables s') \<subseteq> dom (variables s))"
  "jit_dec_ref_ext_jit_dec_ref_int_jit_var_free_dom (Inr (Inl (E, s, i))) \<Longrightarrow>
     (\<forall>s'. jit_dec_ref_int E s i = Inr s' \<longrightarrow> dom (variables s') \<subseteq> dom (variables s))"
  "jit_dec_ref_ext_jit_dec_ref_int_jit_var_free_dom (Inr (Inr (E, s, i, v))) \<Longrightarrow>
     (\<forall>s'. jit_var_free E s i v = Inr s' \<longrightarrow> dom (variables s') \<subseteq> dom (variables s) - {i})"
proof (induction rule: jit_dec_ref_ext_jit_dec_ref_int_jit_var_free.pinduct)
  case (1 E s index)
  note ps = jit_dec_ref_ext.psimps [OF 1(1)]
  show ?case
  proof (intro allI impI)
    fix s' assume r: "jit_dec_ref_ext E s index = Inr s'"
    show "dom (variables s') \<subseteq> dom (variables s)"
    proof (cases "index = 0 \<or> variables s = Map.empty")
      case True
      with r ps show ?thesis by simp
    next
      case nz: False
      from r nz obtain v where v: "variables s index = Some v" and ne: "ref_count_ext v \<noteq> 0"
        by (auto simp: ps split: option.splits if_splits)
      let ?v' = "v\<lparr>ref_count_ext := ref_count_ext v - 1\<rparr>"
      let ?s1 = "s\<lparr>variables := (variables s)(index \<mapsto> ?v')\<rparr>"
      from r nz v ne obtain s2 where
        s2: "(if ref_count_ext ?v' = 0 then todo_erase ?s1 (active_stream ?s1) index
              else Inr ?s1) = Inr s2"
        and fin: "(if ref_count_ext ?v' = 0 \<and> ref_count_int ?v' = 0
                   then jit_var_free E s2 index ?v' else Inr s2) = Inr s'"
        by (simp add: ps Let_def split: sum.splits)
      have vs2: "variables s2 = variables ?s1"
        using s2 by (auto dest: todo_erase_variables split: if_splits)
      show ?thesis
      proof (cases "ref_count_ext ?v' = 0 \<and> ref_count_int ?v' = 0")
        case True
        with fin have "jit_var_free E s2 index ?v' = Inr s'" by simp
        with 1(2) [OF nz v ne refl refl s2 True]
        have "dom (variables s') \<subseteq> dom (variables s2) - {index}" by blast
        with vs2 v show ?thesis by auto
      next
        case False
        with fin have "s' = s2" by (auto split: if_splits)
        with vs2 v show ?thesis by auto
      qed
    qed
  qed
next
  case (2 E s index)
  note ps = jit_dec_ref_int.psimps [OF 2(1)]
  show ?case
  proof (intro allI impI)
    fix s' assume r: "jit_dec_ref_int E s index = Inr s'"
    show "dom (variables s') \<subseteq> dom (variables s)"
    proof (cases "index = 0 \<or> variables s = Map.empty")
      case True
      with r ps show ?thesis by simp
    next
      case nz: False
      from r nz obtain v where v: "variables s index = Some v" and ne: "ref_count_int v \<noteq> 0"
        by (auto simp: ps split: option.splits if_splits)
      let ?v' = "v\<lparr>ref_count_int := ref_count_int v - 1\<rparr>"
      let ?s1 = "s\<lparr>variables := (variables s)(index \<mapsto> ?v')\<rparr>"
      from r nz v ne have
        fin: "(if ref_count_ext ?v' = 0 \<and> ref_count_int ?v' = 0
               then jit_var_free E ?s1 index ?v' else Inr ?s1) = Inr s'"
        by (simp add: ps Let_def)
      show ?thesis
      proof (cases "ref_count_ext ?v' = 0 \<and> ref_count_int ?v' = 0")
        case True
        with fin have "jit_var_free E ?s1 index ?v' = Inr s'" by simp
        with 2(2) [OF nz v ne refl refl True]
        have "dom (variables s') \<subseteq> dom (variables ?s1) - {index}" by blast
        with v show ?thesis by auto
      next
        case False
        with fin have "s' = ?s1" by (auto split: if_splits)
        with v show ?thesis by auto
      qed
    qed
  qed
next
  case (3 E s index v)
  note ps = jit_var_free.psimps [OF 3(1)]
  let ?s1 = "s\<lparr>variable_from_key := (variable_from_key s)(VariableKey E v := None)\<rparr>"
  let ?pre = "(if direct_pointer v then
                 (case variable_from_ptr ?s1 (data v) of
                    None \<Rightarrow> Inl (Fail ''jit_var_free(): direct pointer not found!'', ?s1)
                  | Some _ \<Rightarrow>
                      Inr (?s1\<lparr>variable_from_ptr := (variable_from_ptr ?s1)(data v := None)\<rparr>))
               else Inr ?s1)"
  show ?case
  proof (intro allI impI)
    fix s' assume r: "jit_var_free E s index v = Inr s'"
    from r obtain s2 where s2: "?pre = Inr s2"
      by (simp add: ps Let_def split: sum.splits)
    let ?s3 = "s2\<lparr>variables := (variables s2)(index := None)\<rparr>"
    have vs2: "variables s2 = variables s"
      using s2 by (auto split: if_splits option.splits)
    from r s2 obtain s4 s5 s6 where
      c4: "jit_dec_ref_int E ?s3 (fst (dep v)) = Inr s4" and
      c5: "jit_dec_ref_int E s4 (fst (snd (dep v))) = Inr s5" and
      c6: "jit_dec_ref_int E s5 (snd (snd (dep v))) = Inr s6" and
      c7: "jit_dec_ref_ext E s6 (extra_dep v) = Inr s'"
      by (simp add: ps Let_def split: sum.splits)
    have "dom (variables s4) \<subseteq> dom (variables ?s3)"
      using 3(2) [OF refl s2 refl] c4 by blast
    moreover have "dom (variables s5) \<subseteq> dom (variables s4)"
      using 3(3) [OF refl s2 refl c4] c5 by blast
    moreover have "dom (variables s6) \<subseteq> dom (variables s5)"
      using 3(4) [OF refl s2 refl c4 c5] c6 by blast
    moreover have "dom (variables s') \<subseteq> dom (variables s6)"
      using 3(5) [OF refl s2 refl c4 c5 c6] c7 by blast
    ultimately show "dom (variables s') \<subseteq> dom (variables s) - {index}"
      using vs2 by auto
  qed
qed

termination jit_dec_ref_ext
proof (relation "measure (\<lambda>x. case x of
      Inl (E, s, i) \<Rightarrow> 2 * card (dom (variables s)) + 1
    | Inr (Inl (E, s, i)) \<Rightarrow> 2 * card (dom (variables s)) + 1
    | Inr (Inr (E, s, i, v)) \<Rightarrow> 2 * card (dom (variables s) - {i}) + 2)", goal_cases)
  case 1
  show ?case by simp
next
  case (2 E s index v v' s1 s2)
  then have "variables s2 = variables s1"
    by (auto dest: todo_erase_variables split: if_splits)
  moreover from 2 have "0 < card (dom (variables s))"
    by (auto simp: card_gt_0_iff)
  ultimately show ?case using 2
    by (auto simp: card_Diff_singleton_if insert_absorb domI)
next
  case (3 E s index v v' s1)
  moreover from 3 have "0 < card (dom (variables s))"
    by (auto simp: card_gt_0_iff)
  ultimately show ?case
    by (auto simp: card_Diff_singleton_if insert_absorb domI)
next
  case (4 E s index v s1 s2 s3)
  then have "variables s2 = variables s"
    by (auto split: if_splits option.splits)
  with 4 show ?case by simp
next
  case (5 E s index v s1 s2 s3 s4)
  then have "variables s2 = variables s"
    by (auto split: if_splits option.splits)
  moreover from 5 have "dom (variables s4) \<subseteq> dom (variables s3)"
    using dec_ref_dom_mono_p(2) by blast
  ultimately have "dom (variables s4) \<subseteq> dom (variables s) - {index}"
    using 5 by auto
  then have "card (dom (variables s4)) \<le> card (dom (variables s) - {index})"
    by (intro card_mono) simp_all
  then show ?case by simp
next
  case (6 E s index v s1 s2 s3 s4 s5)
  then have "variables s2 = variables s"
    by (auto split: if_splits option.splits)
  moreover from 6 have "dom (variables s4) \<subseteq> dom (variables s3)"
    "dom (variables s5) \<subseteq> dom (variables s4)"
    using dec_ref_dom_mono_p(2) by blast+
  ultimately have "dom (variables s5) \<subseteq> dom (variables s) - {index}"
    using 6 by auto
  then have "card (dom (variables s5)) \<le> card (dom (variables s) - {index})"
    by (intro card_mono) simp_all
  then show ?case by simp
next
  case (7 E s index v s1 s2 s3 s4 s5 s6)
  then have "variables s2 = variables s"
    by (auto split: if_splits option.splits)
  moreover from 7 have "dom (variables s4) \<subseteq> dom (variables s3)"
    "dom (variables s5) \<subseteq> dom (variables s4)" "dom (variables s6) \<subseteq> dom (variables s5)"
    using dec_ref_dom_mono_p(2) by blast+
  ultimately have "dom (variables s6) \<subseteq> dom (variables s) - {index}"
    using 7 by auto
  then have "card (dom (variables s6)) \<le> card (dom (variables s) - {index})"
    by (intro card_mono) simp_all
  then show ?case by simp
qed


text \<open>The recursive equations are unfolded on demand only.\<close>

declare jit_dec_ref_ext.simps [simp del] jit_dec_ref_int.simps [simp del]
  jit_var_free.simps [simp del]

section \<open>Appending to the trace\<close>

text \<open>\<^verbatim>\<open>strstr(haystack, needle) != nullptr\<close>.\<close>

fun strstr :: "string \<Rightarrow> string \<Rightarrow> bool" where
  "strstr [] n = (n = [])"
| "strstr (c # cs) n = (take (length n) (c # cs) = n \<or> strstr cs n)"

text \<open>
  \<^verbatim>\<open>jit_trace_append(Variable &)\<close>: look the tentative node up in the CSE table, create a new
  table entry under the next index if there is none, reuse the recorded index otherwise. The
  returned \<^verbatim>\<open>Variable *\<close> is the table entry of the returned index.
\<close>

definition jit_trace_append_v :: "'k env \<Rightarrow> 'k jit_state \<Rightarrow> Variable \<Rightarrow> ('k, u32) result" where
  "jit_trace_append_v E s v0 =
     (case stmt v0 of
        None \<Rightarrow> Inl (Crash ''strdup(nullptr)'', s)
      | Some st \<Rightarrow>
          (let v = (if ENOKI_CUDA E \<and> type v0 \<noteq> Float32 \<and> strstr st ''.ftz''
                    then v0\<lparr>stmt := Some (strcat_ftz E st)\<rparr> else v0);
               key = VariableKey E v
           in
             (case variable_from_key s key of
                None \<Rightarrow>
                  (let idx = variable_index s;
                       s1 = s\<lparr>variable_from_key := (variable_from_key s)(key \<mapsto> 0),
                              variable_index := variable_index s + 1\<rparr>
                   in
                     (case variables s1 idx of
                        Some _ \<Rightarrow>
                          Inl (Fail ''jit_trace_append(): could not append instruction!'', s1)
                      | None \<Rightarrow>
                          Inr (idx, s1\<lparr>variables := (variables s1)(idx \<mapsto> v),
                                       variable_from_key := (variable_from_key s1)(key \<mapsto> idx)\<rparr>)))
              | Some idx \<Rightarrow>
                  (case jit_var s idx of
                     Inl e \<Rightarrow> Inl e
                   | Inr _ \<Rightarrow> Inr (idx, s)))))"

text \<open>
  The common end of the four public overloads: register the node, take an external reference
  on the result and put it into the pending set of the stream that was active on entry.
\<close>

definition append_finish :: "'k env \<Rightarrow> 'k jit_state \<Rightarrow> nat \<Rightarrow> Variable \<Rightarrow> ('k, u32) result" where
  "append_finish E s stream v =
     (case jit_trace_append_v E s v of
        Inl e \<Rightarrow> Inl e
      | Inr (idx, s1) \<Rightarrow>
          (case todo_insert (jit_inc_ref_ext_v s1 idx) stream idx of
             Inl e \<Rightarrow> Inl e
           | Inr s2 \<Rightarrow> Inr (idx, s2)))"

text \<open>Append a variable to the instruction trace (no operands).\<close>

definition jit_trace_append_0 :: "'k env \<Rightarrow> 'k jit_state \<Rightarrow> u32 \<Rightarrow> string \<Rightarrow> ('k, u32) result" where
  "jit_trace_append_0 E s ty st =
     (case active_stream s of
        None \<Rightarrow> Inl (Raise ''jit_trace_append(): device and stream must be set!'', s)
      | Some stream \<Rightarrow>
          append_finish E s stream
            (Variable0\<lparr>type := ty, size_v := 1, stmt := Some st, tsize := 1\<rparr>))"

text \<open>Append a variable to the instruction trace (1 operand).\<close>

definition jit_trace_append_1 ::
  "'k env \<Rightarrow> 'k jit_state \<Rightarrow> u32 \<Rightarrow> string \<Rightarrow> u32 \<Rightarrow> ('k, u32) result" where
  "jit_trace_append_1 E s ty st arg1 =
     (case active_stream s of
        None \<Rightarrow> Inl (Raise ''jit_trace_append(): device and stream must be set!'', s)
      | Some stream \<Rightarrow>
          if arg1 = 0 then
            Inl (Raise ''jit_trace_append(): arithmetic involving uninitialized variable!'', s)
          else
            (case jit_var s arg1 of
               Inl e \<Rightarrow> Inl e
             | Inr v1 \<Rightarrow>
                 (let v = Variable0\<lparr>type := ty, size_v := size_v v1, stmt := Some st,
                            dep := (arg1, 0, 0), tsize := 1 + tsize v1\<rparr>
                  in
                    (case (if dirty v1 then
                             (case jit_eval E s of
                                Inl e \<Rightarrow> Inl e
                              | Inr s1 \<Rightarrow>
                                  (case jit_var s1 arg1 of
                                     Inl e \<Rightarrow> Inl e
                                   | Inr _ \<Rightarrow> Inr (v\<lparr>tsize := 2\<rparr>, s1)))
                           else Inr (v, s)) of
                       Inl e \<Rightarrow> Inl e
                     | Inr (v', s1) \<Rightarrow>
                         append_finish E (jit_inc_ref_int_v s1 arg1) stream v'))))"

text \<open>Append a variable to the instruction trace (2 operands).\<close>

definition jit_trace_append_2 ::
  "'k env \<Rightarrow> 'k jit_state \<Rightarrow> u32 \<Rightarrow> string \<Rightarrow> u32 \<Rightarrow> u32 \<Rightarrow> ('k, u32) result" where
  "jit_trace_append_2 E s ty st arg1 arg2 =
     (case active_stream s of
        None \<Rightarrow> Inl (Raise ''jit_trace_append(): device and stream must be set!'', s)
      | Some stream \<Rightarrow>
          if arg1 = 0 \<or> arg2 = 0 then
            Inl (Raise ''jit_trace_append(): arithmetic involving uninitialized variable!'', s)
          else
            (case jit_var s arg1 of
               Inl e \<Rightarrow> Inl e
             | Inr v1 \<Rightarrow>
            (case jit_var s arg2 of
               Inl e \<Rightarrow> Inl e
             | Inr v2 \<Rightarrow>
                 (let v = Variable0\<lparr>type := ty, size_v := max (size_v v1) (size_v v2),
                            stmt := Some st, dep := (arg1, arg2, 0),
                            tsize := 1 + tsize v1 + tsize v2\<rparr>
                  in
                    if (size_v v1 \<noteq> 1 \<and> size_v v1 \<noteq> size_v v) \<or>
                       (size_v v2 \<noteq> 1 \<and> size_v v2 \<noteq> size_v v)
                    then
                      Inl (Raise ''jit_trace_append(): arithmetic involving arrays of incompatible size'', s)
                    else
                      (case (if dirty v1 \<or> dirty v2 then
                               (case jit_eval E s of
                                  Inl e \<Rightarrow> Inl e
                                | Inr s1 \<Rightarrow>
                                    (case jit_var s1 arg1 of
                                       Inl e \<Rightarrow> Inl e
                                     | Inr _ \<Rightarrow>
                                    (case jit_var s1 arg2 of
                                       Inl e \<Rightarrow> Inl e
                                     | Inr _ \<Rightarrow> Inr (v\<lparr>tsize := 3\<rparr>, s1))))
                             else Inr (v, s)) of
                         Inl e \<Rightarrow> Inl e
                       | Inr (v', s1) \<Rightarrow>
                           append_finish E
                             (jit_inc_ref_int_v (jit_inc_ref_int_v s1 arg1) arg2) stream v')))))"

text \<open>
  Append a variable to the instruction trace (3 operands). In the CUDA build a scatter or an
  atomic addition pins \<^verbatim>\<open>state.scatter_gather_operand\<close> as \<^verbatim>\<open>extra_dep\<close>.
\<close>

definition jit_trace_append_3 ::
  "'k env \<Rightarrow> 'k jit_state \<Rightarrow> u32 \<Rightarrow> string \<Rightarrow> u32 \<Rightarrow> u32 \<Rightarrow> u32 \<Rightarrow> ('k, u32) result" where
  "jit_trace_append_3 E s ty st arg1 arg2 arg3 =
     (case active_stream s of
        None \<Rightarrow> Inl (Raise ''jit_trace_append(): device and stream must be set!'', s)
      | Some stream \<Rightarrow>
          if arg1 = 0 \<or> arg2 = 0 \<or> arg3 = 0 then
            Inl (Raise ''jit_trace_append(): arithmetic involving uninitialized variable!'', s)
          else
            (case jit_var s arg1 of
               Inl e \<Rightarrow> Inl e
             | Inr v1 \<Rightarrow>
            (case jit_var s arg2 of
               Inl e \<Rightarrow> Inl e
             | Inr v2 \<Rightarrow>
            (case jit_var s arg3 of
               Inl e \<Rightarrow> Inl e
             | Inr v3 \<Rightarrow>
                 (let v = Variable0\<lparr>type := ty,
                            size_v := max (size_v v1) (max (size_v v2) (size_v v3)),
                            stmt := Some st, dep := (arg1, arg2, arg3),
                            tsize := 1 + tsize v1 + tsize v2 + tsize v3\<rparr>
                  in
                    if (size_v v1 \<noteq> 1 \<and> size_v v1 \<noteq> size_v v) \<or>
                       (size_v v2 \<noteq> 1 \<and> size_v v2 \<noteq> size_v v) \<or>
                       (size_v v3 \<noteq> 1 \<and> size_v v3 \<noteq> size_v v)
                    then
                      Inl (Raise ''jit_trace_append(): arithmetic involving arrays of incompatible size'', s)
                    else
                      (case (if dirty v1 \<or> dirty v2 \<or> dirty v3 then
                               (case jit_eval E s of
                                  Inl e \<Rightarrow> Inl e
                                | Inr s1 \<Rightarrow>
                                    (case jit_var s1 arg1 of
                                       Inl e \<Rightarrow> Inl e
                                     | Inr _ \<Rightarrow>
                                    (case jit_var s1 arg2 of
                                       Inl e \<Rightarrow> Inl e
                                     | Inr _ \<Rightarrow>
                                    (case jit_var s1 arg3 of
                                       Inl e \<Rightarrow> Inl e
                                     | Inr _ \<Rightarrow> Inr (v\<lparr>tsize := 4\<rparr>, s1)))))
                             else Inr (v, s)) of
                         Inl e \<Rightarrow> Inl e
                       | Inr (v', s1) \<Rightarrow>
                           (let s2 = jit_inc_ref_int_v
                                       (jit_inc_ref_int_v (jit_inc_ref_int_v s1 arg1) arg2) arg3
                            in
                              (case (if ENOKI_CUDA E \<and>
                                        (strstr st ''st.global'' \<or> strstr st ''atom.global.add'')
                                     then
                                       (case jit_inc_ref_ext s2 (scatter_gather_operand s2) of
                                          Inl e \<Rightarrow> Inl e
                                        | Inr s3 \<Rightarrow>
                                            Inr (v'\<lparr>extra_dep := scatter_gather_operand s2\<rparr>, s3))
                                     else Inr (v', s2)) of
                                 Inl e \<Rightarrow> Inl e
                               | Inr (v'', s3) \<Rightarrow> append_finish E s3 stream v''))))))))"

section \<open>Sizes, registration, flags\<close>

text \<open>Query the size of a given variable.\<close>

definition jit_var_size :: "'k jit_state \<Rightarrow> u32 \<Rightarrow> (error \<times> 'k jit_state) + size_t" where
  "jit_var_size s index =
     (case jit_var s index of
        Inl e \<Rightarrow> Inl e
      | Inr v \<Rightarrow> Inr (ucast (size_v v)))"

text \<open>Set the size of a given variable (if possible, otherwise throw).\<close>

definition jit_var_set_size ::
  "'k env \<Rightarrow> 'k jit_state \<Rightarrow> u32 \<Rightarrow> size_t \<Rightarrow> bool \<Rightarrow> ('k, u32) result" where
  "jit_var_set_size E s index sz copy =
     (case jit_var s index of
        Inl e \<Rightarrow> Inl e
      | Inr var \<Rightarrow>
          if ucast (size_v var) = sz then Inr (index, s)
          else if data var \<noteq> 0 \<or> ref_count_int var > 0 then
            (if size_v var = 1 \<and> copy then
               (case jit_trace_append_1 E s (type var) ''mov.$t1 $r1, $r2'' index of
                  Inl e \<Rightarrow> Inl e
                | Inr (index_new, s1) \<Rightarrow>
                    (case jit_var s1 index_new of
                       Inl e \<Rightarrow> Inl e
                     | Inr _ \<Rightarrow>
                         (case jit_dec_ref_ext E
                                 (update_var index_new (\<lambda>v. v\<lparr>size_v := ucast sz\<rparr>) s1)
                                 index of
                            Inl e \<Rightarrow> Inl e
                          | Inr s2 \<Rightarrow> Inr (index_new, s2))))
             else
               Inl (Raise ''cuda_var_set_size(): attempted to resize variable, which was already allocated'', s))
          else Inr (index, update_var index (\<lambda>v. v\<lparr>size_v := ucast sz\<rparr>) s))"

text \<open>Register an existing variable with the JIT compiler.\<close>

definition jit_var_register ::
  "'k env \<Rightarrow> 'k jit_state \<Rightarrow> u32 \<Rightarrow> ptr \<Rightarrow> size_t \<Rightarrow> bool \<Rightarrow> ('k, u32) result" where
  "jit_var_register E s ty p sz free =
     (if sz = 0 then Inl (Raise ''jit_var_register: size must be > 0!'', s)
      else
        (case jit_trace_append_v E s
                (Variable0\<lparr>type := ty, data := p, size_v := ucast sz,
                   free_variable := free, tsize := 1\<rparr>) of
           Inl e \<Rightarrow> Inl e
         | Inr (idx, s1) \<Rightarrow> Inr (idx, jit_inc_ref_ext_v s1 idx)))"

text \<open>Register pointer literal as a special variable within the JIT compiler.\<close>

definition jit_var_register_ptr :: "'k env \<Rightarrow> 'k jit_state \<Rightarrow> ptr \<Rightarrow> ('k, u32) result" where
  "jit_var_register_ptr E s p =
     (case variable_from_ptr s p of
        Some idx \<Rightarrow>
          (case jit_inc_ref_ext s idx of
             Inl e \<Rightarrow> Inl e
           | Inr s1 \<Rightarrow> Inr (idx, s1))
      | None \<Rightarrow>
          (case jit_trace_append_v E s
                  (Variable0\<lparr>type := Pointer, data := p, size_v := 1, tsize := 0,
                     free_variable := False, direct_pointer := True\<rparr>) of
             Inl e \<Rightarrow> Inl e
           | Inr (idx, s1) \<Rightarrow>
               (let s2 = jit_inc_ref_ext_v s1 idx
                in Inr (idx, s2\<lparr>variable_from_ptr := (variable_from_ptr s2)(p \<mapsto> idx)\<rparr>))))"

text \<open>\<^verbatim>\<open>jit_var_mark_dirty\<close>.\<close>

definition jit_var_mark_dirty :: "'k jit_state \<Rightarrow> u32 \<Rightarrow> (error \<times> 'k jit_state) + 'k jit_state" where
  "jit_var_mark_dirty s index =
     (case jit_var s index of
        Inl e \<Rightarrow> Inl e
      | Inr _ \<Rightarrow> Inr (update_var index (\<lambda>v. v\<lparr>dirty := True\<rparr>) s))"

section \<open>Concrete environment and states\<close>

text \<open>
  An environment for concrete runs: CSE keyed as in the specification, the build without
  \<^verbatim>\<open>ENOKI_CUDA\<close>, and a stand-in evaluator that only clears the dirty flags.
\<close>

definition env0 :: "(u32 \<times> string option \<times> (u32 \<times> u32 \<times> u32) \<times> u32) env" where
  "env0 = \<lparr> VariableKey = spec_key,
            jit_eval = (\<lambda>s. Inr (s\<lparr>variables := map_option (\<lambda>v. v\<lparr>dirty := False\<rparr>) \<circ> variables s\<rparr>)),
            ENOKI_CUDA = False, strcat_ftz = (\<lambda>st. st) \<rparr>"

text \<open>
  The state after \<^verbatim>\<open>jit_init\<close> (which sets \<^verbatim>\<open>variable_index\<close> to 1) and a first
  \<^verbatim>\<open>jit_device_set\<close>: no variables, one stream, which is active.
\<close>

definition state0 :: "(u32 \<times> string option \<times> (u32 \<times> u32 \<times> u32) \<times> u32) jit_state" where
  "state0 = \<lparr> variables = Map.empty, variable_from_key = Map.empty,
     variable_from_ptr = Map.empty, variable_index = 1, scatter_gather_operand = 0,
     streams = [0 \<mapsto> \<lparr>todo = {}\<rparr>], active_stream = Some 0 \<rparr>"

text \<open>An error the caller can catch, and one that ends the process.\<close>

definition recoverable :: "(error \<times> 's) + 'a \<Rightarrow> bool" where
  "recoverable r = (case r of Inl (Raise _, _) \<Rightarrow> True | _ \<Rightarrow> False)"



text \<open>The result of a call without the state: the error or the returned value.\<close>

definition outcome :: "(error \<times> 's) + ('a \<times> 's) \<Rightarrow> error + 'a" where
  "outcome r = map_sum fst fst r"

text \<open>The external reference count of an id, 0 while no variable has that id.\<close>

definition ext_count :: "'k jit_state \<Rightarrow> u32 \<Rightarrow> u32" where
  "ext_count s i = (case variables s i of None \<Rightarrow> 0 | Some v \<Rightarrow> ref_count_ext v)"

text \<open>
  A short session: \<open>a\<close> is a constant created by the zero-operand append (id 1),
  \<open>b\<close> its negation, created by the one-operand append (id 2). \<open>state_a\<close> is the state after
  the first call, \<open>state_ab\<close> after the second, \<open>state_ab_rel\<close> after the host has released
  \<open>a\<close> with \<^verbatim>\<open>jit_dec_ref_ext\<close>.
\<close>

definition var_a :: Variable where
  "var_a = Variable0\<lparr>type := Float32, size_v := 1, stmt := Some ''mov.$t0 $r0, 0f3F000000'',
             tsize := 1, ref_count_ext := 1\<rparr>"

definition var_b :: Variable where
  "var_b = Variable0\<lparr>type := Float32, size_v := 1, stmt := Some ''neg.$t0 $r0, $r1'',
             dep := (1, 0, 0), tsize := 2, ref_count_ext := 1\<rparr>"

definition state_a :: "(u32 \<times> string option \<times> (u32 \<times> u32 \<times> u32) \<times> u32) jit_state" where
  "state_a = \<lparr> variables = [1 \<mapsto> var_a],
     variable_from_key = [spec_key var_a \<mapsto> 1],
     variable_from_ptr = Map.empty, variable_index = 2, scatter_gather_operand = 0,
     streams = [0 \<mapsto> \<lparr>todo = {1}\<rparr>], active_stream = Some 0 \<rparr>"

definition state_ab :: "(u32 \<times> string option \<times> (u32 \<times> u32 \<times> u32) \<times> u32) jit_state" where
  "state_ab = \<lparr> variables = [1 \<mapsto> var_a\<lparr>ref_count_int := 1\<rparr>, 2 \<mapsto> var_b],
     variable_from_key = [spec_key var_a \<mapsto> 1, spec_key var_b \<mapsto> 2],
     variable_from_ptr = Map.empty, variable_index = 3, scatter_gather_operand = 0,
     streams = [0 \<mapsto> \<lparr>todo = {1, 2}\<rparr>], active_stream = Some 0 \<rparr>"

definition state_ab_rel :: "(u32 \<times> string option \<times> (u32 \<times> u32 \<times> u32) \<times> u32) jit_state" where
  "state_ab_rel = state_ab\<lparr>
     variables := [1 \<mapsto> var_a\<lparr>ref_count_int := 1, ref_count_ext := 0\<rparr>, 2 \<mapsto> var_b],
     streams := [0 \<mapsto> \<lparr>todo = {2}\<rparr>]\<rparr>"

section \<open>Notions the properties are stated with\<close>

text \<open>
  The tentative node the public overloads build before they look it up: a default-constructed
  \<^verbatim>\<open>Variable\<close> with type, size, statement, operands and template size filled in.
\<close>

definition tentative :: "u32 \<Rightarrow> string \<Rightarrow> u32 \<times> u32 \<times> u32 \<Rightarrow> u32 \<Rightarrow> u32 \<Rightarrow> Variable" where
  "tentative ty st d sz ts =
     Variable0\<lparr>type := ty, size_v := sz, stmt := Some st, dep := d, tsize := ts\<rparr>"

text \<open>
  The test of the CUDA build for a scatter or an atomic addition, whose target is pinned as
  \<^verbatim>\<open>extra_dep\<close>.
\<close>

definition is_scatter :: "'k env \<Rightarrow> string \<Rightarrow> bool" where
  "is_scatter E st \<longleftrightarrow>
     ENOKI_CUDA E \<and> (strstr st ''st.global'' \<or> strstr st ''atom.global.add'')"

text \<open>
  What a successful append does for the id it returns: one more external reference than
  before the call, and membership in the pending set of the stream that was active.
\<close>

definition appended :: "'k jit_state \<Rightarrow> 'k jit_state \<Rightarrow> u32 \<Rightarrow> bool" where
  "appended s s' idx \<longleftrightarrow>
     ext_count s' idx = ext_count s idx + 1 \<and>
     (case active_stream s of
        None \<Rightarrow> False
      | Some a \<Rightarrow> (case streams s' a of None \<Rightarrow> False | Some q \<Rightarrow> idx \<in> todo q))"

text \<open>
  The broadcast rule: every operand size is 1 or the largest of the operand sizes.
\<close>

fun max_size :: "u32 list \<Rightarrow> u32" where
  "max_size [] = 0"
| "max_size [x] = x"
| "max_size (x # xs) = max x (max_size xs)"

definition broadcastable :: "u32 list \<Rightarrow> bool" where
  "broadcastable szs \<longleftrightarrow> list_all (\<lambda>z. z = 1 \<or> z = max_size szs) szs"

text \<open>
  \<open>evaluates_first\<close>: the call runs the evaluator on the state it was entered with; a failure
  of the evaluator is the outcome of the call, and otherwise everything the call does is done
  to the state the evaluator returned: outside the returned id and the ids in \<open>ops\<close>, the
  variable table is the evaluator's. \<open>skips_eval\<close>: the call does not depend on the evaluator.
\<close>

definition evaluates_first ::
  "'k env \<Rightarrow> 'k jit_state \<Rightarrow> ('k, u32) result \<Rightarrow> ('k jit_state \<Rightarrow> u32 set) \<Rightarrow> bool" where
  "evaluates_first E s r ops \<longleftrightarrow>
     (case jit_eval E s of
        Inl x \<Rightarrow> r = Inl x
      | Inr s1 \<Rightarrow>
          (case r of
             Inl _ \<Rightarrow> True
           | Inr (idx, s') \<Rightarrow>
               (\<forall>j. j \<notin> insert idx (ops s1) \<longrightarrow> variables s' j = variables s1 j)))"

definition skips_eval :: "('k env \<Rightarrow> ('k, u32) result) \<Rightarrow> 'k env \<Rightarrow> bool" where
  "skips_eval call E \<longleftrightarrow> (\<forall>ev. call (E\<lparr>jit_eval := ev\<rparr>) = call E)"

text \<open>The state in which a call ended.\<close>

definition final :: "(error \<times> 's) + ('a \<times> 's) \<Rightarrow> 's" where
  "final r = (case r of Inl (_, s) \<Rightarrow> s | Inr (_, s) \<Rightarrow> s)"

text \<open>
  The string at \<^verbatim>\<open>strstr(haystack, needle) + strlen(needle)\<close>: what follows the first
  occurrence of the needle (empty if there is none).
\<close>

fun after_first :: "string \<Rightarrow> string \<Rightarrow> string" where
  "after_first [] n = []"
| "after_first (c # cs) n =
     (if take (length n) (c # cs) = n then drop (length n) (c # cs) else after_first cs n)"

text \<open>
  More concrete material: the CUDA build, an evaluator that fails, and the session after \<open>b\<close>
  was marked dirty and \<open>a\<close> made the target of scatter operations. In the CUDA build
  \<^verbatim>\<open>strcat(offset, offset + 4)\<close> is given the outcome that \<^verbatim>\<open>strcat\<close> is specified to have for
  strings that do not overlap: a copy of the text after \<^verbatim>\<open>.ftz\<close> is appended to the end of the
  statement.
\<close>

definition env_cuda :: "(u32 \<times> string option \<times> (u32 \<times> u32 \<times> u32) \<times> u32) env" where
  "env_cuda = env0\<lparr>ENOKI_CUDA := True, strcat_ftz := (\<lambda>st. st @ after_first st ''.ftz'')\<rparr>"

definition env_fail :: "(u32 \<times> string option \<times> (u32 \<times> u32 \<times> u32) \<times> u32) env" where
  "env_fail = env0\<lparr>jit_eval := (\<lambda>s. Inl (Raise ''jit_eval(): compilation failed'', s))\<rparr>"

definition state_abd :: "(u32 \<times> string option \<times> (u32 \<times> u32 \<times> u32) \<times> u32) jit_state" where
  "state_abd = state_ab\<lparr>
     variables := [1 \<mapsto> var_a\<lparr>ref_count_int := 1\<rparr>, 2 \<mapsto> var_b\<lparr>dirty := True\<rparr>],
     scatter_gather_operand := 1\<rparr>"

text \<open>The pending set of the stream at an address; empty where there is no stream.\<close>

definition pending :: "'k jit_state \<Rightarrow> nat \<Rightarrow> u32 set" where
  "pending s a = (case streams s a of None \<Rightarrow> {} | Some q \<Rightarrow> todo q)"

text \<open>The claimed invariant of a pending set: every id in it is externally referenced.\<close>

definition pending_ok :: "'k jit_state \<Rightarrow> nat \<Rightarrow> bool" where
  "pending_ok s a \<longleftrightarrow> (\<forall>i \<in> pending s a. ext_count s i \<noteq> 0)"

text \<open>
  What decreasing reference counts, with all the frees it cascades into, can do to the pending
  sets: the active stream stays, pending sets only shrink, those of the streams that are not
  active stay as they are, and an id whose external count drops to zero leaves the pending
  set of the active stream.
\<close>

definition released :: "'k jit_state \<Rightarrow> 'k jit_state \<Rightarrow> bool" where
  "released s s' \<longleftrightarrow>
     active_stream s' = active_stream s \<and>
     (\<forall>b. pending s' b \<subseteq> pending s b) \<and>
     (\<forall>b. active_stream s \<noteq> Some b \<longrightarrow> pending s' b = pending s b) \<and>
     (\<forall>j a. ext_count s j \<noteq> 0 \<and> ext_count s' j = 0 \<and> active_stream s = Some a \<longrightarrow>
        j \<notin> pending s' a)"

text \<open>
  The session with a second stream, made active by \<^verbatim>\<open>jit_device_set\<close> after \<open>a\<close> and \<open>b\<close> were
  created on the first; and the same after the host has released \<open>a\<close>.
\<close>

definition state_two :: "(u32 \<times> string option \<times> (u32 \<times> u32 \<times> u32) \<times> u32) jit_state" where
  "state_two = state_ab\<lparr>streams := [0 \<mapsto> \<lparr>todo = {1, 2}\<rparr>, 1 \<mapsto> \<lparr>todo = {}\<rparr>],
                         active_stream := Some 1\<rparr>"

definition state_two_rel :: "(u32 \<times> string option \<times> (u32 \<times> u32 \<times> u32) \<times> u32) jit_state" where
  "state_two_rel = state_two\<lparr>
     variables := [1 \<mapsto> var_a\<lparr>ref_count_int := 1, ref_count_ext := 0\<rparr>, 2 \<mapsto> var_b]\<rparr>"

section \<open>Sessions\<close>

text \<open>Sequencing calls: the next call runs in the state the previous one returned.\<close>

definition then_do ::
  "('k, 'a) result \<Rightarrow> ('a \<Rightarrow> 'k jit_state \<Rightarrow> ('k, 'b) result) \<Rightarrow> ('k, 'b) result" where
  "then_do r f = (case r of Inl e \<Rightarrow> Inl e | Inr (x, s) \<Rightarrow> f x s)"

definition returning :: "'a \<Rightarrow> (error \<times> 'k jit_state) + 'k jit_state \<Rightarrow> ('k, 'a) result" where
  "returning x r = (case r of Inl e \<Rightarrow> Inl e | Inr s \<Rightarrow> Inr (x, s))"

text \<open>
  The CSE invariant of the specification, with the specification's tuple as key: no two live,
  unevaluated variables have the same type, statement, operands and size.
\<close>

definition cse_unique :: "(u32 \<times> string option \<times> (u32 \<times> u32 \<times> u32) \<times> u32) jit_state \<Rightarrow> bool" where
  "cse_unique s \<longleftrightarrow>
     (\<forall>i j v w. variables s i = Some v \<and> variables s j = Some w \<and> data v = 0 \<and> data w = 0 \<and>
        spec_key v = spec_key w \<longrightarrow> i = j)"

text \<open>
  Two host arrays share the scalar \<open>a\<close> (CSE gave both the same id, so it holds two external
  references); \<open>b\<close> uses it. Each array is then broadcast to its own size with
  \<^verbatim>\<open>jit_var_set_size(a, n, copy = 1)\<close>, and \<open>abs\<close> of the copy is appended after each
  broadcast; finally the first \<open>abs\<close> node is resized to the second size.
\<close>

definition resize_session ::
  "((u32 \<times> string option \<times> (u32 \<times> u32 \<times> u32) \<times> u32), u32 \<times> u32 \<times> u32 \<times> u32) result" where
  "resize_session =
     then_do (jit_trace_append_0 env0 state0 Float32 ''mov.$t0 $r0, 0f3F000000'') (\<lambda>a s.
     then_do (returning () (jit_inc_ref_ext s a)) (\<lambda>_ s.
     then_do (jit_trace_append_1 env0 s Float32 ''neg.$t0 $r0, $r1'' a) (\<lambda>b s.
     then_do (jit_var_set_size env0 s a 10 True) (\<lambda>m s.
     then_do (jit_trace_append_1 env0 s Float32 ''abs.$t0 $r0, $r1'' m) (\<lambda>q s.
     then_do (jit_var_set_size env0 s a 20 True) (\<lambda>m' s.
     then_do (jit_trace_append_1 env0 s Float32 ''abs.$t0 $r0, $r1'' m') (\<lambda>q2 s.
     then_do (jit_var_set_size env0 s q 20 False) (\<lambda>q' s.
       Inr ((m, m', q, q2), s)))))))))"

text \<open>The node both \<open>abs\<close> ids end up holding.\<close>

definition var_q :: Variable where
  "var_q = Variable0\<lparr>type := Float32, size_v := 20, stmt := Some ''abs.$t0 $r0, $r1'',
             dep := (3, 0, 0), tsize := 3, ref_count_ext := 1\<rparr>"

text \<open>
  A counter-like variable is created, resized in place, released, and created again.
\<close>

definition counter_session ::
  "((u32 \<times> string option \<times> (u32 \<times> u32 \<times> u32) \<times> u32), u32) result" where
  "counter_session =
     then_do (jit_trace_append_0 env0 state0 UInt32 ''mov.u32 $r0, %r0'') (\<lambda>x s.
     then_do (jit_var_set_size env0 s x 10 False) (\<lambda>x s.
     then_do (returning () (jit_dec_ref_ext env0 s x)) (\<lambda>_ s.
       jit_trace_append_0 env0 s UInt32 ''mov.u32 $r0, %r0'')))"

text \<open>
  Modelled from the spec: the function through which the host stores the buffer being written
  in \<^verbatim>\<open>state.scatter_gather_operand\<close> before it issues a scatter is not part of the sources at
  hand; ssa.cpp only reads the field. The specification describes it as a register holding
  one variable id.
\<close>

definition set_scatter_gather_operand :: "'k jit_state \<Rightarrow> u32 \<Rightarrow> 'k jit_state" where
  "set_scatter_gather_operand s index = s\<lparr>scatter_gather_operand := index\<rparr>"

text \<open>
  A scatter in the CUDA build, issued twice: an address \<open>p\<close>, a value \<open>x\<close> and a mask \<open>m\<close> are
  created, the store is appended, the host makes the returned node the scatter operand and
  appends the same store again. The session returns the id of the first store with its
  external reference count before the second call, and the id the second call returned with
  its count after that call.
\<close>

definition scatter_session ::
  "((u32 \<times> string option \<times> (u32 \<times> u32 \<times> u32) \<times> u32), u32 \<times> u32 \<times> u32 \<times> u32) result" where
  "scatter_session =
     then_do (jit_trace_append_0 env_cuda state0 UInt64 ''mov.$t0 $r0, %rd0'') (\<lambda>p s.
     then_do (jit_trace_append_0 env_cuda s Float32 ''mov.$t0 $r0, 0f3F000000'') (\<lambda>x s.
     then_do (jit_trace_append_0 env_cuda s Bool ''mov.$t0 $r0, 1'') (\<lambda>m s.
     then_do (jit_trace_append_3 env_cuda s Float32 ''@$r3 st.global.$t2 [$r1], $r2'' p x m) (\<lambda>n s.
     then_do (Inr ((), set_scatter_gather_operand s n)) (\<lambda>_ s.
     then_do (jit_trace_append_3 env_cuda s Float32 ''@$r3 st.global.$t2 [$r1], $r2'' p x m) (\<lambda>n' s'.
       Inr ((n, ext_count s n, n', ext_count s' n'), s')))))))"

section \<open>Running the model\<close>

lemmas EnokiType_defs =
  Invalid_def Int8_def UInt8_def Int16_def UInt16_def Int32_def UInt32_def Int64_def
  UInt64_def Float16_def Float32_def Float64_def Bool_def Pointer_def

lemmas run_defs =
  jit_trace_append_0_def jit_trace_append_1_def jit_trace_append_2_def jit_trace_append_3_def
  append_finish_def jit_trace_append_v_def jit_var_def todo_insert_def todo_erase_def
  jit_inc_ref_ext_v_def jit_inc_ref_int_v_def jit_inc_ref_ext_def update_var_def Let_def
  jit_var_set_size_def jit_dec_ref_ext.simps jit_dec_ref_int.simps jit_var_free.simps
  env0_def state0_def Variable0_def spec_key_def EnokiType_defs

lemmas session_defs = state_a_def state_ab_def state_ab_rel_def var_a_def var_b_def

text \<open>The three states of the session are what the calls produce, one after the other.\<close>

lemma state_a_reached:
  "jit_trace_append_0 env0 state0 Float32 ''mov.$t0 $r0, 0f3F000000'' = Inr (1, state_a)"
  by (simp add: run_defs session_defs)

lemma state_ab_reached:
  "jit_trace_append_1 env0 state_a Float32 ''neg.$t0 $r0, $r1'' 1 = Inr (2, state_ab)"
  by (simp add: run_defs session_defs) (auto simp: fun_eq_iff)

lemma state_ab_rel_reached:
  "jit_dec_ref_ext env0 state_ab 1 = Inr state_ab_rel"
  by (simp add: run_defs session_defs) (auto simp: fun_eq_iff)

text \<open>Marking \<open>b\<close> dirty gives the variable table of \<open>state_abd\<close>.\<close>

lemma state_abd_reached:
  "jit_var_mark_dirty state_ab 2 = Inr (state_abd\<lparr>scatter_gather_operand := 0\<rparr>)"
  by (simp add: jit_var_mark_dirty_def jit_var_def update_var_def session_defs state_abd_def)

section \<open>Type queries\<close>

text \<open>
  C10: \<^verbatim>\<open>jit_type_size\<close> gives 1 for Int8, UInt8 and Bool, 2 for Int16 and UInt16, 4 for Int32,
  UInt32 and Float32, 8 for Int64, UInt64, Pointer and Float64. Float16, which
  \<^verbatim>\<open>jit_type_name\<close> knows as "f16", has no case of its own: it falls into the default branch,
  the fatal "invalid type" error.
\<close>

theorem jit_type_size_table:
  "jit_type_size Int8 = Inr 1 \<and> jit_type_size UInt8 = Inr 1 \<and> jit_type_size Bool = Inr 1 \<and>
   jit_type_size Int16 = Inr 2 \<and> jit_type_size UInt16 = Inr 2 \<and>
   jit_type_size Int32 = Inr 4 \<and> jit_type_size UInt32 = Inr 4 \<and> jit_type_size Float32 = Inr 4 \<and>
   jit_type_size Int64 = Inr 8 \<and> jit_type_size UInt64 = Inr 8 \<and>
   jit_type_size Pointer = Inr 8 \<and> jit_type_size Float64 = Inr 8 \<and>
   jit_type_name Float16 = Inr ''f16'' \<and>
   jit_type_size Float16 = Inl (Fail ''jit_type_size(): invalid type!'')"
  by (simp add: jit_type_size_def jit_type_name_def EnokiType_defs)

section \<open>Decreasing a reference count\<close>

text \<open>
  C9: for index 0, and for any index at all while the variable table is empty,
  \<^verbatim>\<open>jit_dec_ref_ext\<close> and \<^verbatim>\<open>jit_dec_ref_int\<close> return at once and leave the state as it is;
  neither the lookup (unknown variable) nor the underflow check is reached.
\<close>

theorem dec_ref_null_or_empty:
  assumes "index = 0 \<or> variables s = Map.empty"
  shows "jit_dec_ref_ext E s index = Inr s \<and> jit_dec_ref_int E s index = Inr s"
  using assms by (auto simp: jit_dec_ref_ext.simps jit_dec_ref_int.simps)

theorem dec_ref_null_or_empty_witness:
  "((0::u32) = 0 \<or> variables state0 = Map.empty) \<and> ((7::u32) = 0 \<or> variables state0 = Map.empty) \<and>
   jit_dec_ref_ext env0 state0 0 = Inr state0 \<and> jit_dec_ref_int env0 state0 0 = Inr state0 \<and>
   jit_dec_ref_ext env0 state0 7 = Inr state0 \<and> jit_dec_ref_int env0 state0 7 = Inr state0"
  using dec_ref_null_or_empty [of 0 state0 env0] dec_ref_null_or_empty [of 7 state0 env0]
  by (simp add: state0_def)




section \<open>Resizing\<close>

lemma jit_trace_append_v_live:
  "jit_trace_append_v E s v = Inr (idx, s1) \<Longrightarrow> variables s1 idx \<noteq> None"
  by (auto simp: jit_trace_append_v_def jit_var_def Let_def split: option.splits if_splits)

lemma append_finish_live:
  "append_finish E s a v = Inr (idx, s') \<Longrightarrow> variables s' idx \<noteq> None"
  by (auto simp: append_finish_def todo_insert_def jit_inc_ref_ext_v_def update_var_def
      split: sum.splits option.splits dest!: jit_trace_append_v_live)

lemma jit_trace_append_1_live:
  "jit_trace_append_1 E s ty st a = Inr (idx, s') \<Longrightarrow> variables s' idx \<noteq> None"
  by (auto simp: jit_trace_append_1_def Let_def
      split: sum.splits option.splits if_splits dest!: append_finish_live)

text \<open>
  C7, as the source has it. For a requested size other than the current one:
  a variable that is materialized or has internal references is copied if it is a scalar and
  \<open>copy\<close> is set (a one-operand \<^verbatim>\<open>mov\<close> node is appended, given the requested size and
  returned, and the caller's reference to the original is released), and the resize is
  rejected with a jit error otherwise; a variable that is neither materialized nor referenced
  internally is resized in place and keeps its id.
\<close>

theorem jit_var_set_size_cases:
  assumes "variables s index = Some var" and "ucast (size_v var) \<noteq> sz"
  shows "((data var \<noteq> 0 \<or> ref_count_int var \<noteq> 0) \<and> size_v var = 1 \<and> copy \<longrightarrow>
            (\<forall>r s'. jit_var_set_size E s index sz copy = Inr (r, s') \<longleftrightarrow>
               (\<exists>s1. jit_trace_append_1 E s (type var) ''mov.$t1 $r1, $r2'' index = Inr (r, s1) \<and>
                     jit_dec_ref_ext E (update_var r (\<lambda>v. v\<lparr>size_v := ucast sz\<rparr>) s1) index = Inr s')))
       \<and> ((data var \<noteq> 0 \<or> ref_count_int var \<noteq> 0) \<and> \<not> (size_v var = 1 \<and> copy) \<longrightarrow>
            jit_var_set_size E s index sz copy =
              Inl (Raise ''cuda_var_set_size(): attempted to resize variable, which was already allocated'', s))
       \<and> (data var = 0 \<and> ref_count_int var = 0 \<longrightarrow>
            jit_var_set_size E s index sz copy =
              Inr (index, s\<lparr>variables := (variables s)(index \<mapsto> var\<lparr>size_v := ucast sz\<rparr>)\<rparr>))"
  using assms
  apply (intro conjI impI allI)
    apply (auto simp: jit_var_set_size_def jit_var_def update_var_def word_greater_zero_iff
      split: sum.splits option.splits dest: jit_trace_append_1_live)
  done

theorem jit_var_set_size_cases_witness:
  "variables state_ab 1 = Some (var_a\<lparr>ref_count_int := 1\<rparr>) \<and>
   ucast (size_v (var_a\<lparr>ref_count_int := 1\<rparr>)) \<noteq> (10 :: size_t) \<and>
   ref_count_int (var_a\<lparr>ref_count_int := 1\<rparr>) \<noteq> 0 \<and> size_v (var_a\<lparr>ref_count_int := 1\<rparr>) = 1 \<and>
   outcome (jit_var_set_size env0 state_ab 1 10 True) = Inr 3 \<and>
   jit_var_set_size env0 state_ab 1 10 False =
     Inl (Raise ''cuda_var_set_size(): attempted to resize variable, which was already allocated'', state_ab) \<and>
   variables state_a 1 = Some var_a \<and> data var_a = 0 \<and> ref_count_int var_a = 0 \<and>
   jit_var_set_size env0 state_a 1 10 True =
     Inr (1, state_a\<lparr>variables := (variables state_a)(1 \<mapsto> var_a\<lparr>size_v := 10\<rparr>)\<rparr>)"
proof -
  have a: "variables state_ab 1 = Some (var_a\<lparr>ref_count_int := 1\<rparr>)"
    by (simp add: state_ab_def)
  have b: "ucast (size_v (var_a\<lparr>ref_count_int := 1\<rparr>)) \<noteq> (10 :: size_t)"
    by (simp add: var_a_def Variable0_def)
  have c: "variables state_a 1 = Some var_a"
    by (simp add: state_a_def)
  have d: "ucast (size_v var_a) \<noteq> (10 :: size_t)"
    by (simp add: var_a_def Variable0_def)
  have e: "outcome (jit_var_set_size env0 state_ab 1 10 True) = Inr 3"
    by (simp add: run_defs session_defs outcome_def)
  show ?thesis
    using jit_var_set_size_cases [OF a b, of False env0]
      jit_var_set_size_cases [OF a b, of True env0]
      jit_var_set_size_cases [OF c d, of True env0] a b c d e
    by (simp add: var_a_def Variable0_def)
qed

text \<open>
  C7 as claimed fails: \<open>a\<close>, right after its creation, is neither materialized nor is
  \<open>copy\<close> set, and yet the resize to 10 elements is not rejected. The variable is resized in
  place.
\<close>

theorem jit_var_set_size_in_place:
  "variables state_a 1 = Some var_a \<and> data var_a = 0 \<and> ucast (size_v var_a) \<noteq> (10 :: size_t) \<and>
   jit_var_set_size env0 state_a 1 10 False =
     Inr (1, state_a\<lparr>variables := [1 \<mapsto> var_a\<lparr>size_v := 10\<rparr>]\<rparr>) \<and>
   \<not> recoverable (jit_var_set_size env0 state_a 1 10 False)"
  by (simp add: run_defs session_defs recoverable_def)

section \<open>Appending to the trace\<close>

subsection \<open>What a successful call went through\<close>

lemma Variable0_ext [simp]: "ref_count_ext Variable0 = 0"
  by (simp add: Variable0_def)

lemma tentative_simps [simp]:
  "ref_count_ext (tentative ty st d sz ts) = 0" "data (tentative ty st d sz ts) = 0"
  "size_v (tentative ty st d sz ts) = sz"
  "ref_count_ext (tentative ty st d sz ts\<lparr>extra_dep := x\<rparr>) = 0"
  "data (tentative ty st d sz ts\<lparr>extra_dep := x\<rparr>) = 0"
  "size_v (tentative ty st d sz ts\<lparr>extra_dep := x\<rparr>) = sz"
  by (simp_all add: tentative_def Variable0_def)

lemma jit_trace_append_v_ext:
  assumes "jit_trace_append_v E s v = Inr (idx, s1)" and "ref_count_ext v = 0"
  shows "ext_count s1 idx = ext_count s idx" and "streams s1 = streams s"
    and "variables s1 idx \<noteq> None"
  using assms
  by (auto simp: jit_trace_append_v_def jit_var_def Let_def ext_count_def
      split: option.splits if_splits)

lemma append_finish_ext:
  assumes "append_finish E s a v = Inr (idx, s')" and "ref_count_ext v = 0"
  shows "ext_count s' idx = ext_count s idx + 1"
    and "case streams s' a of None \<Rightarrow> False | Some q \<Rightarrow> idx \<in> todo q"
proof -
  from assms(1) obtain s1 where
    v: "jit_trace_append_v E s v = Inr (idx, s1)" and
    t: "todo_insert (jit_inc_ref_ext_v s1 idx) a idx = Inr s'"
    by (auto simp: append_finish_def split: sum.splits)
  note f = jit_trace_append_v_ext [OF v assms(2)]
  from t f show "ext_count s' idx = ext_count s idx + 1"
    by (auto simp: todo_insert_def jit_inc_ref_ext_v_def update_var_def ext_count_def
        split: option.splits)
  from t show "case streams s' a of None \<Rightarrow> False | Some q \<Rightarrow> idx \<in> todo q"
    by (auto simp: todo_insert_def split: option.splits)
qed

lemma append_finish_appended:
  assumes "append_finish E s1 a v = Inr (idx, s')" and "ref_count_ext v = 0"
    and "active_stream s = Some a" and "ext_count s1 idx = ext_count s idx"
  shows "appended s s' idx"
  using append_finish_ext [OF assms(1,2)] assms(3,4) by (simp add: appended_def)

lemma append_0_appended:
  assumes "jit_trace_append_0 E s ty st = Inr (idx, s')"
  shows "appended s s' idx"
  using assms
  by (auto simp: jit_trace_append_0_def split: option.splits
      intro!: append_finish_appended [where ?s1.0 = s])

lemma append_1_decomp:
  assumes "jit_trace_append_1 E s ty st a1 = Inr (idx, s')"
  shows "\<exists>a v1 s1. active_stream s = Some a \<and> a1 \<noteq> 0 \<and> variables s a1 = Some v1 \<and>
    (if dirty v1 then jit_eval E s = Inr s1 \<and> variables s1 a1 \<noteq> None else s1 = s) \<and>
    append_finish E (jit_inc_ref_int_v s1 a1) a
      (tentative ty st (a1, 0, 0) (size_v v1) (if dirty v1 then 2 else 1 + tsize v1)) = Inr (idx, s')"
  using assms
  by (auto simp: jit_trace_append_1_def jit_var_def Let_def tentative_def
      split: option.splits if_splits sum.splits)

lemma append_2_decomp:
  assumes "jit_trace_append_2 E s ty st a1 a2 = Inr (idx, s')"
  shows "\<exists>a v1 v2 s1. active_stream s = Some a \<and> a1 \<noteq> 0 \<and> a2 \<noteq> 0 \<and>
    variables s a1 = Some v1 \<and> variables s a2 = Some v2 \<and>
    (size_v v1 = 1 \<or> size_v v1 = max (size_v v1) (size_v v2)) \<and>
    (size_v v2 = 1 \<or> size_v v2 = max (size_v v1) (size_v v2)) \<and>
    (if dirty v1 \<or> dirty v2
     then jit_eval E s = Inr s1 \<and> variables s1 a1 \<noteq> None \<and> variables s1 a2 \<noteq> None
     else s1 = s) \<and>
    append_finish E (jit_inc_ref_int_v (jit_inc_ref_int_v s1 a1) a2) a
      (tentative ty st (a1, a2, 0) (max (size_v v1) (size_v v2))
         (if dirty v1 \<or> dirty v2 then 3 else 1 + tsize v1 + tsize v2)) = Inr (idx, s')"
  using assms
  apply (simp add: jit_trace_append_2_def jit_var_def Let_def tentative_def
      split: option.splits if_splits sum.splits prod.splits)
   apply auto
  done

lemma append_3_decomp:
  assumes "jit_trace_append_3 E s ty st a1 a2 a3 = Inr (idx, s')"
  shows "\<exists>a v1 v2 v3 s1 s2. active_stream s = Some a \<and> a1 \<noteq> 0 \<and> a2 \<noteq> 0 \<and> a3 \<noteq> 0 \<and>
    variables s a1 = Some v1 \<and> variables s a2 = Some v2 \<and> variables s a3 = Some v3 \<and>
    (size_v v1 = 1 \<or> size_v v1 = max (size_v v1) (max (size_v v2) (size_v v3))) \<and>
    (size_v v2 = 1 \<or> size_v v2 = max (size_v v1) (max (size_v v2) (size_v v3))) \<and>
    (size_v v3 = 1 \<or> size_v v3 = max (size_v v1) (max (size_v v2) (size_v v3))) \<and>
    (if dirty v1 \<or> dirty v2 \<or> dirty v3
     then jit_eval E s = Inr s1 \<and> variables s1 a1 \<noteq> None \<and> variables s1 a2 \<noteq> None \<and>
          variables s1 a3 \<noteq> None
     else s1 = s) \<and>
    (if is_scatter E st
     then jit_inc_ref_ext
            (jit_inc_ref_int_v (jit_inc_ref_int_v (jit_inc_ref_int_v s1 a1) a2) a3)
            (scatter_gather_operand s1) = Inr s2
     else s2 = jit_inc_ref_int_v (jit_inc_ref_int_v (jit_inc_ref_int_v s1 a1) a2) a3) \<and>
    append_finish E s2 a
      (tentative ty st (a1, a2, a3) (max (size_v v1) (max (size_v v2) (size_v v3)))
         (if dirty v1 \<or> dirty v2 \<or> dirty v3 then 4 else 1 + tsize v1 + tsize v2 + tsize v3)
       \<lparr>extra_dep := (if is_scatter E st then scatter_gather_operand s1 else 0)\<rparr>) = Inr (idx, s')"
proof -
  have sgo: "scatter_gather_operand (jit_inc_ref_int_v x i) = scatter_gather_operand x" for x :: "'a jit_state" and i
    by (simp add: jit_inc_ref_int_v_def update_var_def split: option.splits)
  have t0: "tentative ty st d sz ts\<lparr>extra_dep := 0\<rparr> = tentative ty st d sz ts" for d sz ts
    by (simp add: tentative_def Variable0_def)
  show ?thesis
    using assms
    apply (simp add: jit_trace_append_3_def jit_var_def Let_def sgo
        split: option.splits if_splits sum.splits prod.splits)
     apply (auto simp: tentative_def [symmetric] is_scatter_def t0)
    done
qed

lemma jit_trace_append_v_frame:
  "jit_trace_append_v E s v = Inr (idx, s') \<Longrightarrow> j \<noteq> idx \<Longrightarrow> variables s' j = variables s j"
  by (auto simp: jit_trace_append_v_def jit_var_def Let_def split: option.splits if_splits)

lemma append_finish_frame:
  "append_finish E s a v = Inr (idx, s') \<Longrightarrow> j \<noteq> idx \<Longrightarrow> variables s' j = variables s j"
proof -
  assume r: "append_finish E s a v = Inr (idx, s')" and j: "j \<noteq> idx"
  from r obtain s1 where
    v: "jit_trace_append_v E s v = Inr (idx, s1)" and
    t: "todo_insert (jit_inc_ref_ext_v s1 idx) a idx = Inr s'"
    by (auto simp: append_finish_def split: sum.splits)
  from t j have "variables s' j = variables s1 j"
    by (auto simp: todo_insert_def jit_inc_ref_ext_v_def update_var_def split: option.splits)
  with jit_trace_append_v_frame [OF v j] show ?thesis by simp
qed

lemma inc_ref_int_v_frame [simp]:
  "j \<noteq> i \<Longrightarrow> variables (jit_inc_ref_int_v s i) j = variables s j"
  by (simp add: jit_inc_ref_int_v_def update_var_def split: option.splits)

lemma inc_ref_ext_frame:
  "jit_inc_ref_ext s i = Inr s' \<Longrightarrow> j \<noteq> i \<Longrightarrow> variables s' j = variables s j"
  by (auto simp: jit_inc_ref_ext_def jit_inc_ref_ext_v_def jit_var_def update_var_def
      split: if_splits option.splits)

lemma ext_count_inc_ref_int_v [simp]:
  "ext_count (jit_inc_ref_int_v s i) j = ext_count s j"
  by (simp add: ext_count_def jit_inc_ref_int_v_def update_var_def split: option.splits)

lemma ext_count_inc_ref_ext:
  "jit_inc_ref_ext s i = Inr s1 \<Longrightarrow> j \<noteq> i \<Longrightarrow> ext_count s1 j = ext_count s j"
  by (auto simp: jit_inc_ref_ext_def jit_inc_ref_ext_v_def jit_var_def update_var_def
      ext_count_def split: if_splits option.splits)

lemma returns_final: "outcome r = Inr i \<Longrightarrow> r = Inr (i, final r)"
  by (cases r) (auto simp: outcome_def final_def)

lemma inc_ref_ext_null: "jit_inc_ref_ext s 0 = Inr s"
  by (simp add: jit_inc_ref_ext_def)

lemma ext_count_inc_ref_ext_same:
  "jit_inc_ref_ext s i = Inr s1 \<Longrightarrow> i \<noteq> 0 \<Longrightarrow> ext_count s1 i = ext_count s i + 1"
  by (auto simp: jit_inc_ref_ext_def jit_inc_ref_ext_v_def jit_var_def update_var_def
      ext_count_def split: if_splits option.splits)

lemma jit_trace_append_v_streams:
  "jit_trace_append_v E s v = Inr (idx, s1) \<Longrightarrow> streams s1 = streams s"
  by (auto simp: jit_trace_append_v_def jit_var_def Let_def split: option.splits if_splits)

lemma append_finish_pending:
  assumes "append_finish E s a v = Inr (idx, s')"
  shows "pending s' a = insert idx (pending s a)"
proof -
  from assms obtain s1 where
    v: "jit_trace_append_v E s v = Inr (idx, s1)" and
    t: "todo_insert (jit_inc_ref_ext_v s1 idx) a idx = Inr s'"
    by (auto simp: append_finish_def split: sum.splits)
  from t jit_trace_append_v_streams [OF v] show ?thesis
    by (auto simp: todo_insert_def jit_inc_ref_ext_v_def update_var_def pending_def
        split: option.splits)
qed

lemma append_finish_in_pending:
  assumes "append_finish E s a v = Inr (idx, s')"
  shows "idx \<in> pending s' a"
  using append_finish_pending [OF assms] by simp

subsection \<open>External reference and pending set\<close>

text \<open>
  What a successful append does for the id it returns, whatever the key, the evaluator and the
  build are. The id is in the pending set of the stream that was active. Its external
  reference count is one more than in the state the node is appended to, which is the state
  of the call, or the state the evaluator returned if an operand was dirty; except that a
  scatter of the CUDA build which returns the very variable held in
  \<^verbatim>\<open>state.scatter_gather_operand\<close> adds two, the pin and the reference of the caller. The
  zero-operand case is \<open>append_0_appended\<close>.
\<close>

lemma append_1_ext_ref:
  assumes "jit_trace_append_1 E s ty st a1 = Inr (idx, s')"
  shows "\<exists>a v1 s1. active_stream s = Some a \<and> variables s a1 = Some v1 \<and>
    (if dirty v1 then jit_eval E s = Inr s1 else s1 = s) \<and>
    ext_count s' idx = ext_count s1 idx + 1 \<and> idx \<in> pending s' a"
  using append_1_decomp [OF assms]
proof (elim exE conjE)
  fix a v1 s1
  assume a: "active_stream s = Some a" and v: "variables s a1 = Some v1"
    and s1: "if dirty v1 then jit_eval E s = Inr s1 \<and> variables s1 a1 \<noteq> None else s1 = s"
    and f: "append_finish E (jit_inc_ref_int_v s1 a1) a
              (tentative ty st (a1, 0, 0) (size_v v1) (if dirty v1 then 2 else 1 + tsize v1)) =
            Inr (idx, s')"
  have e: "ext_count s' idx = ext_count s1 idx + 1"
    using append_finish_ext(1) [OF f] by simp
  from s1 have "if dirty v1 then jit_eval E s = Inr s1 else s1 = s"
    by (simp split: if_splits)
  with a v e append_finish_in_pending [OF f] show ?thesis by blast
qed

lemma append_2_ext_ref:
  assumes "jit_trace_append_2 E s ty st a1 a2 = Inr (idx, s')"
  shows "\<exists>a v1 v2 s1. active_stream s = Some a \<and> variables s a1 = Some v1 \<and>
    variables s a2 = Some v2 \<and>
    (if dirty v1 \<or> dirty v2 then jit_eval E s = Inr s1 else s1 = s) \<and>
    ext_count s' idx = ext_count s1 idx + 1 \<and> idx \<in> pending s' a"
  using append_2_decomp [OF assms]
proof (elim exE conjE)
  fix a v1 v2 s1
  assume a: "active_stream s = Some a" and v: "variables s a1 = Some v1" "variables s a2 = Some v2"
    and s1: "if dirty v1 \<or> dirty v2
             then jit_eval E s = Inr s1 \<and> variables s1 a1 \<noteq> None \<and> variables s1 a2 \<noteq> None
             else s1 = s"
    and f: "append_finish E (jit_inc_ref_int_v (jit_inc_ref_int_v s1 a1) a2) a
              (tentative ty st (a1, a2, 0) (max (size_v v1) (size_v v2))
                 (if dirty v1 \<or> dirty v2 then 3 else 1 + tsize v1 + tsize v2)) = Inr (idx, s')"
  have e: "ext_count s' idx = ext_count s1 idx + 1"
    using append_finish_ext(1) [OF f] by simp
  from s1 have "if dirty v1 \<or> dirty v2 then jit_eval E s = Inr s1 else s1 = s"
    by (simp split: if_splits)
  with a v e append_finish_in_pending [OF f] show ?thesis by blast
qed

lemma append_3_ext_ref:
  assumes "jit_trace_append_3 E s ty st a1 a2 a3 = Inr (idx, s')"
  shows "\<exists>a v1 v2 v3 s1. active_stream s = Some a \<and> variables s a1 = Some v1 \<and>
    variables s a2 = Some v2 \<and> variables s a3 = Some v3 \<and>
    (if dirty v1 \<or> dirty v2 \<or> dirty v3 then jit_eval E s = Inr s1 else s1 = s) \<and>
    ext_count s' idx =
      ext_count s1 idx +
        (if is_scatter E st \<and> scatter_gather_operand s1 = idx \<and> idx \<noteq> 0 then 2 else 1) \<and>
    idx \<in> pending s' a"
  using append_3_decomp [OF assms]
proof (elim exE conjE)
  fix a v1 v2 v3 s1 s2
  assume a: "active_stream s = Some a"
    and v: "variables s a1 = Some v1" "variables s a2 = Some v2" "variables s a3 = Some v3"
    and s1: "if dirty v1 \<or> dirty v2 \<or> dirty v3
             then jit_eval E s = Inr s1 \<and> variables s1 a1 \<noteq> None \<and>
                  variables s1 a2 \<noteq> None \<and> variables s1 a3 \<noteq> None
             else s1 = s"
    and s2: "if is_scatter E st
             then jit_inc_ref_ext
                    (jit_inc_ref_int_v (jit_inc_ref_int_v (jit_inc_ref_int_v s1 a1) a2) a3)
                    (scatter_gather_operand s1) = Inr s2
             else s2 = jit_inc_ref_int_v (jit_inc_ref_int_v (jit_inc_ref_int_v s1 a1) a2) a3"
    and f: "append_finish E s2 a
              (tentative ty st (a1, a2, a3) (max (size_v v1) (max (size_v v2) (size_v v3)))
                 (if dirty v1 \<or> dirty v2 \<or> dirty v3 then 4
                  else 1 + tsize v1 + tsize v2 + tsize v3)
               \<lparr>extra_dep := (if is_scatter E st then scatter_gather_operand s1 else 0)\<rparr>) =
            Inr (idx, s')"
  let ?S = "jit_inc_ref_int_v (jit_inc_ref_int_v (jit_inc_ref_int_v s1 a1) a2) a3"
  have e: "ext_count s' idx = ext_count s2 idx + 1"
    using append_finish_ext(1) [OF f] by simp
  have p: "ext_count s2 idx =
      ext_count s1 idx +
        (if is_scatter E st \<and> scatter_gather_operand s1 = idx \<and> idx \<noteq> 0 then 1 else 0)"
  proof (cases "is_scatter E st")
    case False
    with s2 show ?thesis by simp
  next
    case sc: True
    with s2 have i: "jit_inc_ref_ext ?S (scatter_gather_operand s1) = Inr s2" by simp
    show ?thesis
    proof (cases "scatter_gather_operand s1 = idx")
      case False
      then have "idx \<noteq> scatter_gather_operand s1" by simp
      from ext_count_inc_ref_ext [OF i this] False show ?thesis by simp
    next
      case eq: True
      show ?thesis
      proof (cases "idx = 0")
        case True
        with i eq have "s2 = ?S" by (simp add: inc_ref_ext_null)
        with True show ?thesis by simp
      next
        case False
        with i eq ext_count_inc_ref_ext_same [of ?S idx s2] sc show ?thesis by simp
      qed
    qed
  qed
  from s1 have "if dirty v1 \<or> dirty v2 \<or> dirty v3 then jit_eval E s = Inr s1 else s1 = s"
    by (simp split: if_splits)
  moreover from e p have "ext_count s' idx =
      ext_count s1 idx +
        (if is_scatter E st \<and> scatter_gather_operand s1 = idx \<and> idx \<noteq> 0 then 2 else 1)"
    by simp
  ultimately show ?thesis
    using a v append_finish_in_pending [OF f] by blast
qed

text \<open>
  C1 fails on the code in the CUDA build. The pin of a scatter, \<^verbatim>\<open>jit_inc_ref_ext(v.extra_dep)\<close>,
  is taken for the tentative node before the CSE lookup. In \<open>scatter_session\<close> the second
  store finds the first one in the CSE table (id 4); the tentative node is dropped, but the pin
  it took stays, and it is on the returned variable itself, which the host had made the
  scatter operand. The call raises the external count of the id it returns from 1 to 3; for
  a node that is stored, \<^verbatim>\<open>jit_var_free\<close> gives the pin back.
\<close>

theorem scatter_reuse_double_ref:
  "outcome scatter_session = Inr (4, 1, 4, 3)"
  by (simp add: scatter_session_def set_scatter_gather_operand_def then_do_def run_defs
      env_cuda_def outcome_def ext_count_def)

text \<open>
  The host was given the id twice and so holds two references. When it has released both, the
  variable is still there with an external count of one that belongs to nobody.
\<close>

lemma scatter_reuse_leaves_reference:
  "(case scatter_session of
      Inl e \<Rightarrow> None
    | Inr ((n, _, n', _), s) \<Rightarrow>
        (case jit_dec_ref_ext env_cuda s n of
           Inl e \<Rightarrow> None
         | Inr s1 \<Rightarrow>
             (case jit_dec_ref_ext env_cuda s1 n' of
                Inl e \<Rightarrow> None
              | Inr s2 \<Rightarrow> Some (map_option ref_count_ext (variables s2 n)))))
   = Some (Some 1)"
  by (simp add: scatter_session_def set_scatter_gather_operand_def then_do_def run_defs
      env_cuda_def ext_count_def)

subsection \<open>Shapes\<close>

text \<open>
  Operands that do not broadcast are rejected with the shape-mismatch jit error before
  anything is changed: the state of the error is the state of the call.
\<close>

lemma trace_append_shape_mismatch:
  assumes "active_stream s = Some a"
  shows "(a1 \<noteq> 0 \<and> a2 \<noteq> 0 \<and> variables s a1 = Some v1 \<and> variables s a2 = Some v2 \<and>
          \<not> broadcastable [size_v v1, size_v v2] \<longrightarrow>
            jit_trace_append_2 E s ty st a1 a2 =
              Inl (Raise ''jit_trace_append(): arithmetic involving arrays of incompatible size'', s)) \<and>
         (b1 \<noteq> 0 \<and> b2 \<noteq> 0 \<and> b3 \<noteq> 0 \<and> variables s b1 = Some w1 \<and> variables s b2 = Some w2 \<and>
          variables s b3 = Some w3 \<and> \<not> broadcastable [size_v w1, size_v w2, size_v w3] \<longrightarrow>
            jit_trace_append_3 E s ty st b1 b2 b3 =
              Inl (Raise ''jit_trace_append(): arithmetic involving arrays of incompatible size'', s))"
  using assms unfolding broadcastable_def
  by (simp add: jit_trace_append_2_def jit_trace_append_3_def jit_var_def Let_def)

text \<open>
  C2 fails on the code for a reused node. \<open>a\<close> is a scalar; the sum \<open>a + a\<close> is appended (id 2,
  size 1), resized in place to 10 elements by \<^verbatim>\<open>jit_var_set_size\<close>, and appended again. The
  resize left the CSE table entry under the old key, so the second append finds it and
  returns id 2: a variable of size 10 for two operands of size 1.
\<close>

theorem stale_cse_entry_after_resize:
  "(case jit_trace_append_2 env0 state_a Float32 ''add.$t0 $r0, $r1, $r2'' 1 1 of
      Inl e \<Rightarrow> None
    | Inr (y, s1) \<Rightarrow>
        (case jit_var_set_size env0 s1 y 10 False of
           Inl e \<Rightarrow> None
         | Inr (y', s2) \<Rightarrow>
             (case jit_trace_append_2 env0 s2 Float32 ''add.$t0 $r0, $r1, $r2'' 1 1 of
                Inl e \<Rightarrow> None
              | Inr (z, s3) \<Rightarrow>
                  Some (y, y', z, map_option size_v (variables s2 1),
                        map_option size_v (variables s3 z)))))
   = Some (2, 2, 2, Some 1, Some 10)"
  by (simp add: run_defs session_defs)

text \<open>
  At that input the claim's condition holds: the operand sizes broadcast, and their largest is 1.
\<close>

theorem stale_cse_entry_after_resize_witness:
  "broadcastable [size_v var_a, size_v var_a] \<and> max_size [size_v var_a, size_v var_a] = 1 \<and>
   (case jit_trace_append_2 env0 state_a Float32 ''add.$t0 $r0, $r1, $r2'' 1 1 of
      Inl e \<Rightarrow> None
    | Inr (y, s1) \<Rightarrow>
        (case jit_var_set_size env0 s1 y 10 False of
           Inl e \<Rightarrow> None
         | Inr (y', s2) \<Rightarrow>
             (case jit_trace_append_2 env0 s2 Float32 ''add.$t0 $r0, $r1, $r2'' 1 1 of
                Inl e \<Rightarrow> None
              | Inr (z, s3) \<Rightarrow>
                  Some (map_option size_v (variables s2 1), map_option size_v (variables s3 z)))))
   = Some (Some 1, Some 10)"
  using stale_cse_entry_after_resize
  by (simp add: run_defs session_defs broadcastable_def)

subsection \<open>Dirty operands\<close>

lemma jit_trace_append_v_eval_irrelevant [simp]:
  "jit_trace_append_v (E\<lparr>jit_eval := ev\<rparr>) s v = jit_trace_append_v E s v"
  by (auto simp: jit_trace_append_v_def Let_def split: option.splits)

lemma append_finish_eval_irrelevant [simp]:
  "append_finish (E\<lparr>jit_eval := ev\<rparr>) s a v = append_finish E s a v"
  by (simp add: append_finish_def)

lemma eval_first_1:
  assumes "active_stream s = Some a" "a1 \<noteq> 0" "variables s a1 = Some v1" "dirty v1"
  shows "evaluates_first E s (jit_trace_append_1 E s ty st a1) (\<lambda>_. {a1})"
proof (cases "jit_trace_append_1 E s ty st a1")
  case (Inl e)
  with assms show ?thesis
    by (auto simp: evaluates_first_def jit_trace_append_1_def jit_var_def Let_def
        split: sum.splits)
next
  case r: (Inr p)
  obtain idx s' where p: "p = (idx, s')" by (cases p)
  from append_1_decomp [OF r [unfolded p]] assms
  obtain s1 sz ts where e: "jit_eval E s = Inr s1" and
    f: "append_finish E (jit_inc_ref_int_v s1 a1) a (tentative ty st (a1, 0, 0) sz ts) =
        Inr (idx, s')"
    by auto
  have "\<forall>j. j \<notin> {idx, a1} \<longrightarrow> variables s' j = variables s1 j"
    using append_finish_frame [OF f] by simp
  with e r p show ?thesis by (simp add: evaluates_first_def)
qed

lemma skip_1:
  assumes "variables s a1 = Some v1" "\<not> dirty v1"
  shows "skips_eval (\<lambda>E. jit_trace_append_1 E s ty st a1) E"
  using assms
  by (simp add: skips_eval_def jit_trace_append_1_def jit_var_def split: option.splits)

lemma eval_first_2:
  assumes "active_stream s = Some a" "a1 \<noteq> 0" "a2 \<noteq> 0"
    "variables s a1 = Some v1" "variables s a2 = Some v2"
    "broadcastable [size_v v1, size_v v2]" "dirty v1 \<or> dirty v2"
  shows "evaluates_first E s (jit_trace_append_2 E s ty st a1 a2) (\<lambda>_. {a1, a2})"
proof (cases "jit_trace_append_2 E s ty st a1 a2")
  case (Inl e)
  from assms(6) have
    "\<not> ((size_v v1 \<noteq> 1 \<and> size_v v1 \<noteq> max (size_v v1) (size_v v2)) \<or>
        (size_v v2 \<noteq> 1 \<and> size_v v2 \<noteq> max (size_v v1) (size_v v2)))"
    by (simp add: broadcastable_def)
  with Inl assms(1-5,7) show ?thesis
    by (auto simp: evaluates_first_def jit_trace_append_2_def jit_var_def Let_def
        split: sum.splits)
next
  case r: (Inr p)
  obtain idx s' where p: "p = (idx, s')" by (cases p)
  from append_2_decomp [OF r [unfolded p]] assms
  obtain s1 sz ts where e: "jit_eval E s = Inr s1" and
    f: "append_finish E (jit_inc_ref_int_v (jit_inc_ref_int_v s1 a1) a2) a
          (tentative ty st (a1, a2, 0) sz ts) = Inr (idx, s')"
    by auto
  have "\<forall>j. j \<notin> {idx, a1, a2} \<longrightarrow> variables s' j = variables s1 j"
    using append_finish_frame [OF f] by simp
  with e r p show ?thesis by (simp add: evaluates_first_def)
qed

lemma skip_2:
  assumes "variables s a1 = Some v1" "variables s a2 = Some v2" "\<not> (dirty v1 \<or> dirty v2)"
  shows "skips_eval (\<lambda>E. jit_trace_append_2 E s ty st a1 a2) E"
  using assms
  by (auto simp: skips_eval_def jit_trace_append_2_def jit_var_def Let_def split: option.splits)

lemma eval_fails_3:
  assumes "active_stream s = Some a" "a1 \<noteq> 0" "a2 \<noteq> 0" "a3 \<noteq> 0"
    "variables s a1 = Some v1" "variables s a2 = Some v2" "variables s a3 = Some v3"
    "broadcastable [size_v v1, size_v v2, size_v v3]" "dirty v1 \<or> dirty v2 \<or> dirty v3"
    "jit_eval E s = Inl x"
  shows "jit_trace_append_3 E s ty st a1 a2 a3 = Inl x"
  using assms unfolding broadcastable_def
  by (simp add: jit_trace_append_3_def jit_var_def Let_def) blast

lemma eval_first_3:
  assumes "active_stream s = Some a" "a1 \<noteq> 0" "a2 \<noteq> 0" "a3 \<noteq> 0"
    "variables s a1 = Some v1" "variables s a2 = Some v2" "variables s a3 = Some v3"
    "broadcastable [size_v v1, size_v v2, size_v v3]" "dirty v1 \<or> dirty v2 \<or> dirty v3"
  shows "evaluates_first E s (jit_trace_append_3 E s ty st a1 a2 a3)
           (\<lambda>s1. {a1, a2, a3} \<union> (if is_scatter E st then {scatter_gather_operand s1} else {}))"
proof (cases "jit_trace_append_3 E s ty st a1 a2 a3")
  case (Inl e)
  show ?thesis
  proof (cases "jit_eval E s")
    case x: (Inl x)
    from eval_fails_3 [OF assms x] x show ?thesis by (simp add: evaluates_first_def)
  next
    case (Inr s1)
    with Inl show ?thesis by (simp add: evaluates_first_def)
  qed
next
  case r: (Inr p)
  obtain idx s' where p: "p = (idx, s')" by (cases p)
  from append_3_decomp [OF r [unfolded p]] show ?thesis
  proof (elim exE conjE)
    fix a' w1 w2 w3 s1 s2
    assume w: "variables s a1 = Some w1" "variables s a2 = Some w2" "variables s a3 = Some w3"
      and s1: "if dirty w1 \<or> dirty w2 \<or> dirty w3
               then jit_eval E s = Inr s1 \<and> variables s1 a1 \<noteq> None \<and>
                    variables s1 a2 \<noteq> None \<and> variables s1 a3 \<noteq> None
               else s1 = s"
      and s2: "if is_scatter E st
               then jit_inc_ref_ext
                      (jit_inc_ref_int_v (jit_inc_ref_int_v (jit_inc_ref_int_v s1 a1) a2) a3)
                      (scatter_gather_operand s1) = Inr s2
               else s2 = jit_inc_ref_int_v (jit_inc_ref_int_v (jit_inc_ref_int_v s1 a1) a2) a3"
      and f: "append_finish E s2 a'
                (tentative ty st (a1, a2, a3) (max (size_v w1) (max (size_v w2) (size_v w3)))
                   (if dirty w1 \<or> dirty w2 \<or> dirty w3 then 4
                    else 1 + tsize w1 + tsize w2 + tsize w3)
                 \<lparr>extra_dep := (if is_scatter E st then scatter_gather_operand s1 else 0)\<rparr>) =
              Inr (idx, s')"
    from w assms(5-7,9) s1 have e: "jit_eval E s = Inr s1" by simp
    have "variables s' j = variables s1 j"
      if "j \<notin> insert idx ({a1, a2, a3} \<union>
                 (if is_scatter E st then {scatter_gather_operand s1} else {}))"
      for j
    proof -
      from that have "variables s' j = variables s2 j"
        using append_finish_frame [OF f, of j] by simp
      also from that s2 have "variables s2 j = variables s1 j"
        by (auto split: if_splits dest: inc_ref_ext_frame [where j = j])
      finally show ?thesis .
    qed
    with e r p show ?thesis by (simp add: evaluates_first_def)
  qed
qed

lemma skip_3:
  assumes "variables s a1 = Some v1" "variables s a2 = Some v2" "variables s a3 = Some v3"
    "\<not> (dirty v1 \<or> dirty v2 \<or> dirty v3)"
  shows "skips_eval (\<lambda>E. jit_trace_append_3 E s ty st a1 a2 a3) E"
  using assms
  by (simp add: skips_eval_def jit_trace_append_3_def jit_var_def Let_def
      cong: if_cong sum.case_cong option.case_cong)

text \<open>
  C4: in a one-, two- or three-operand append that gets as far as appending (a stream is
  active, the operands are nonzero ids of variables, and their sizes broadcast), a dirty
  operand makes the call run \<^verbatim>\<open>jit_eval\<close> first: the evaluator's failure is the call's, and the
  node is appended to the state the evaluator returned. If no operand is dirty the call does
  not depend on the evaluator at all.
\<close>

theorem dirty_operand_forces_eval:
  assumes "active_stream s = Some a"
  shows "(a1 \<noteq> 0 \<and> variables s a1 = Some v1 \<longrightarrow>
            (if dirty v1
             then evaluates_first E s (jit_trace_append_1 E s ty st a1) (\<lambda>_. {a1})
             else skips_eval (\<lambda>E. jit_trace_append_1 E s ty st a1) E)) \<and>
         (b1 \<noteq> 0 \<and> b2 \<noteq> 0 \<and> variables s b1 = Some w1 \<and> variables s b2 = Some w2 \<and>
          broadcastable [size_v w1, size_v w2] \<longrightarrow>
            (if dirty w1 \<or> dirty w2
             then evaluates_first E s (jit_trace_append_2 E s ty st b1 b2) (\<lambda>_. {b1, b2})
             else skips_eval (\<lambda>E. jit_trace_append_2 E s ty st b1 b2) E)) \<and>
         (c1 \<noteq> 0 \<and> c2 \<noteq> 0 \<and> c3 \<noteq> 0 \<and> variables s c1 = Some u1 \<and> variables s c2 = Some u2 \<and>
          variables s c3 = Some u3 \<and> broadcastable [size_v u1, size_v u2, size_v u3] \<longrightarrow>
            (if dirty u1 \<or> dirty u2 \<or> dirty u3
             then evaluates_first E s (jit_trace_append_3 E s ty st c1 c2 c3)
                    (\<lambda>s1. {c1, c2, c3} \<union>
                       (if is_scatter E st then {scatter_gather_operand s1} else {}))
             else skips_eval (\<lambda>E. jit_trace_append_3 E s ty st c1 c2 c3) E))"
proof (intro conjI impI)
  assume "a1 \<noteq> 0 \<and> variables s a1 = Some v1"
  with assms show "if dirty v1
      then evaluates_first E s (jit_trace_append_1 E s ty st a1) (\<lambda>_. {a1})
      else skips_eval (\<lambda>E. jit_trace_append_1 E s ty st a1) E"
    by (simp add: eval_first_1 skip_1)
next
  assume "b1 \<noteq> 0 \<and> b2 \<noteq> 0 \<and> variables s b1 = Some w1 \<and> variables s b2 = Some w2 \<and>
          broadcastable [size_v w1, size_v w2]"
  with assms show "if dirty w1 \<or> dirty w2
      then evaluates_first E s (jit_trace_append_2 E s ty st b1 b2) (\<lambda>_. {b1, b2})
      else skips_eval (\<lambda>E. jit_trace_append_2 E s ty st b1 b2) E"
    using eval_first_2 [of s a b1 b2 w1 w2 E ty st] skip_2 [of s b1 w1 b2 w2 ty st E]
    by (simp del: max_size.simps)
next
  assume "c1 \<noteq> 0 \<and> c2 \<noteq> 0 \<and> c3 \<noteq> 0 \<and> variables s c1 = Some u1 \<and> variables s c2 = Some u2 \<and>
          variables s c3 = Some u3 \<and> broadcastable [size_v u1, size_v u2, size_v u3]"
  with assms show "if dirty u1 \<or> dirty u2 \<or> dirty u3
      then evaluates_first E s (jit_trace_append_3 E s ty st c1 c2 c3)
             (\<lambda>s1. {c1, c2, c3} \<union>
                (if is_scatter E st then {scatter_gather_operand s1} else {}))
      else skips_eval (\<lambda>E. jit_trace_append_3 E s ty st c1 c2 c3) E"
    using eval_first_3 [of s a c1 c2 c3 u1 u2 u3 E ty st] skip_3 [of s c1 u1 c2 u2 c3 u3 ty st E]
    by (simp del: max_size.simps)
qed

theorem dirty_operand_forces_eval_witness:
  "active_stream state_abd = Some 0 \<and>
   variables state_abd 1 = Some (var_a\<lparr>ref_count_int := 1\<rparr>) \<and>
   variables state_abd 2 = Some (var_b\<lparr>dirty := True\<rparr>) \<and>
   dirty (var_b\<lparr>dirty := True\<rparr>) \<and>
   broadcastable [size_v (var_a\<lparr>ref_count_int := 1\<rparr>), size_v (var_b\<lparr>dirty := True\<rparr>)] \<and>
   evaluates_first env_fail state_abd
     (jit_trace_append_1 env_fail state_abd Float32 ''add.$t0 $r0, $r1, $r2'' 2) (\<lambda>_. {2}) \<and>
   evaluates_first env_fail state_abd
     (jit_trace_append_2 env_fail state_abd Float32 ''add.$t0 $r0, $r1, $r2'' 1 2) (\<lambda>_. {1, 2}) \<and>
   evaluates_first env_fail state_abd
     (jit_trace_append_3 env_fail state_abd Float32 ''add.$t0 $r0, $r1, $r2'' 1 2 2)
     (\<lambda>s1. {1, 2, 2} \<union>
        (if is_scatter env_fail ''add.$t0 $r0, $r1, $r2'' then {scatter_gather_operand s1} else {})) \<and>
   jit_trace_append_2 env_fail state_abd Float32 ''add.$t0 $r0, $r1, $r2'' 1 2 =
     Inl (Raise ''jit_eval(): compilation failed'', state_abd) \<and>
   active_stream state_ab = Some 0 \<and>
   variables state_ab 1 = Some (var_a\<lparr>ref_count_int := 1\<rparr>) \<and>
   variables state_ab 2 = Some var_b \<and> \<not> dirty (var_a\<lparr>ref_count_int := 1\<rparr>) \<and> \<not> dirty var_b \<and>
   skips_eval (\<lambda>E. jit_trace_append_1 E state_ab Float32 ''add.$t0 $r0, $r1, $r2'' 2) env_fail \<and>
   skips_eval (\<lambda>E. jit_trace_append_2 E state_ab Float32 ''add.$t0 $r0, $r1, $r2'' 1 2) env_fail \<and>
   skips_eval (\<lambda>E. jit_trace_append_3 E state_ab Float32 ''add.$t0 $r0, $r1, $r2'' 1 2 2) env_fail \<and>
   outcome (jit_trace_append_2 env_fail state_ab Float32 ''add.$t0 $r0, $r1, $r2'' 1 2) = Inr 3"
proof -
  have a: "active_stream state_abd = Some 0" "active_stream state_ab = Some 0"
    by (simp_all add: state_abd_def state_ab_def)
  have v: "variables state_abd 1 = Some (var_a\<lparr>ref_count_int := 1\<rparr>)"
    "variables state_abd 2 = Some (var_b\<lparr>dirty := True\<rparr>)"
    "variables state_ab 1 = Some (var_a\<lparr>ref_count_int := 1\<rparr>)"
    "variables state_ab 2 = Some var_b"
    by (simp_all add: state_abd_def state_ab_def)
  have b: "broadcastable [size_v (var_a\<lparr>ref_count_int := 1\<rparr>), size_v (var_b\<lparr>dirty := True\<rparr>)]"
    "broadcastable [size_v (var_a\<lparr>ref_count_int := 1\<rparr>), size_v var_b]"
    "broadcastable [size_v (var_a\<lparr>ref_count_int := 1\<rparr>), size_v (var_b\<lparr>dirty := True\<rparr>),
       size_v (var_b\<lparr>dirty := True\<rparr>)]"
    "broadcastable [size_v (var_a\<lparr>ref_count_int := 1\<rparr>), size_v var_b, size_v var_b]"
    by (simp_all add: broadcastable_def var_a_def var_b_def Variable0_def)
  have d: "dirty (var_b\<lparr>dirty := True\<rparr>)" "\<not> dirty (var_a\<lparr>ref_count_int := 1\<rparr>)" "\<not> dirty var_b"
    by (simp_all add: var_a_def var_b_def Variable0_def)
  have f: "jit_eval env_fail state_abd = Inl (Raise ''jit_eval(): compilation failed'', state_abd)"
    by (simp add: env_fail_def)
  have o: "outcome (jit_trace_append_2 env_fail state_ab Float32 ''add.$t0 $r0, $r1, $r2'' 1 2) = Inr 3"
    by (simp add: run_defs session_defs env_fail_def outcome_def)
  note t1 = dirty_operand_forces_eval [OF a(1), of 2 "var_b\<lparr>dirty := True\<rparr>" env_fail Float32
      "''add.$t0 $r0, $r1, $r2''" 1 2 "var_a\<lparr>ref_count_int := 1\<rparr>" "var_b\<lparr>dirty := True\<rparr>"
      1 2 2 "var_a\<lparr>ref_count_int := 1\<rparr>" "var_b\<lparr>dirty := True\<rparr>" "var_b\<lparr>dirty := True\<rparr>"]
  note t2 = dirty_operand_forces_eval [OF a(2), of 2 var_b env_fail Float32
      "''add.$t0 $r0, $r1, $r2''" 1 2 "var_a\<lparr>ref_count_int := 1\<rparr>" var_b
      1 2 2 "var_a\<lparr>ref_count_int := 1\<rparr>" var_b var_b]
  from t1 v b d have e:
    "evaluates_first env_fail state_abd
       (jit_trace_append_1 env_fail state_abd Float32 ''add.$t0 $r0, $r1, $r2'' 2) (\<lambda>_. {2})"
    "evaluates_first env_fail state_abd
       (jit_trace_append_2 env_fail state_abd Float32 ''add.$t0 $r0, $r1, $r2'' 1 2) (\<lambda>_. {1, 2})"
    "evaluates_first env_fail state_abd
       (jit_trace_append_3 env_fail state_abd Float32 ''add.$t0 $r0, $r1, $r2'' 1 2 2)
       (\<lambda>s1. {1, 2, 2} \<union>
          (if is_scatter env_fail ''add.$t0 $r0, $r1, $r2'' then {scatter_gather_operand s1} else {}))"
    by (simp_all del: max_size.simps)
  from t2 v b d have k:
    "skips_eval (\<lambda>E. jit_trace_append_1 E state_ab Float32 ''add.$t0 $r0, $r1, $r2'' 2) env_fail"
    "skips_eval (\<lambda>E. jit_trace_append_2 E state_ab Float32 ''add.$t0 $r0, $r1, $r2'' 1 2) env_fail"
    "skips_eval (\<lambda>E. jit_trace_append_3 E state_ab Float32 ''add.$t0 $r0, $r1, $r2'' 1 2 2) env_fail"
    by (simp_all del: max_size.simps)
  from e(2) f have
    "jit_trace_append_2 env_fail state_abd Float32 ''add.$t0 $r0, $r1, $r2'' 1 2 =
       Inl (Raise ''jit_eval(): compilation failed'', state_abd)"
    by (simp add: evaluates_first_def)
  with a v b d e k o show ?thesis by simp
qed

section \<open>Releasing references\<close>

subsection \<open>The effect of a release\<close>

lemma released_refl [simp]: "released s s"
  by (auto simp: released_def)

lemma released_trans:
  assumes "released s s1" "released s1 s2"
  shows "released s s2"
  unfolding released_def
proof (intro conjI allI impI)
  show "active_stream s2 = active_stream s"
    using assms by (simp add: released_def)
next
  fix b show "pending s2 b \<subseteq> pending s b"
    using assms unfolding released_def by blast
next
  fix b assume "active_stream s \<noteq> Some b"
  with assms show "pending s2 b = pending s b"
    by (simp add: released_def)
next
  fix j a
  assume h: "ext_count s j \<noteq> 0 \<and> ext_count s2 j = 0 \<and> active_stream s = Some a"
  show "j \<notin> pending s2 a"
  proof (cases "ext_count s1 j = 0")
    case True
    with h assms(1) have "j \<notin> pending s1 a" unfolding released_def by blast
    with assms(2) show ?thesis unfolding released_def by blast
  next
    case False
    with h assms(1) have "active_stream s1 = Some a" by (simp add: released_def)
    with False h assms(2) show ?thesis unfolding released_def by blast
  qed
qed

lemma released_ext_step:
  assumes v: "variables s index = Some v"
    and s2: "(if ref_count_ext (v\<lparr>ref_count_ext := ref_count_ext v - 1\<rparr>) = 0
              then todo_erase (s\<lparr>variables := (variables s)(index \<mapsto> v\<lparr>ref_count_ext := ref_count_ext v - 1\<rparr>)\<rparr>)
                     (active_stream (s\<lparr>variables := (variables s)(index \<mapsto> v\<lparr>ref_count_ext := ref_count_ext v - 1\<rparr>)\<rparr>)) index
              else Inr (s\<lparr>variables := (variables s)(index \<mapsto> v\<lparr>ref_count_ext := ref_count_ext v - 1\<rparr>)\<rparr>)) = Inr s2"
  shows "released s s2"
    and "variables s2 index = Some (v\<lparr>ref_count_ext := ref_count_ext v - 1\<rparr>)"
    and "ref_count_ext v - 1 = 0 \<Longrightarrow> active_stream s = Some a \<Longrightarrow> index \<notin> pending s2 a"
  using assms
  by (auto simp: released_def todo_erase_def pending_def ext_count_def
      split: if_splits option.splits)

lemma released_int_step:
  assumes v: "variables s index = Some v"
  shows "released s (s\<lparr>variables := (variables s)(index \<mapsto> v\<lparr>ref_count_int := ref_count_int v - 1\<rparr>)\<rparr>)"
  using assms
  by (auto simp: released_def pending_def ext_count_def split: if_splits option.splits)

lemma released_free_step:
  assumes v: "variables s index = Some v" and e: "ref_count_ext v = 0"
    and s2: "(if direct_pointer v then
                 (case variable_from_ptr (s\<lparr>variable_from_key := k\<rparr>) (data v) of
                    None \<Rightarrow> Inl (Fail ''jit_var_free(): direct pointer not found!'', s\<lparr>variable_from_key := k\<rparr>)
                  | Some _ \<Rightarrow>
                      Inr (s\<lparr>variable_from_key := k,
                           variable_from_ptr := (variable_from_ptr (s\<lparr>variable_from_key := k\<rparr>))(data v := None)\<rparr>))
               else Inr (s\<lparr>variable_from_key := k\<rparr>)) = Inr s2"
  shows "released s (s2\<lparr>variables := (variables s2)(index := None)\<rparr>)"
  using assms
  by (auto simp: released_def pending_def ext_count_def split: if_splits option.splits)

lemma dec_ref_released:
  "\<forall>s'. jit_dec_ref_ext E s i = Inr s' \<longrightarrow> released s s'"
  "\<forall>s'. jit_dec_ref_int E s i = Inr s' \<longrightarrow> released s s'"
  "\<forall>s'. jit_var_free E s i v = Inr s' \<longrightarrow> variables s i = Some v \<longrightarrow> ref_count_ext v = 0 \<longrightarrow>
        released s s'"
proof (induction E s i and E s i and E s i v
    rule: jit_dec_ref_ext_jit_dec_ref_int_jit_var_free.induct)
  case (1 E s index)
  note eq = jit_dec_ref_ext.simps [of E s index]
  show ?case
  proof (intro allI impI)
    fix s' assume r: "jit_dec_ref_ext E s index = Inr s'"
    show "released s s'"
    proof (cases "index = 0 \<or> variables s = Map.empty")
      case True
      with r eq show ?thesis by simp
    next
      case nz: False
      from r nz obtain v where v: "variables s index = Some v" and ne: "ref_count_ext v \<noteq> 0"
        by (auto simp: eq split: option.splits if_splits)
      let ?v' = "v\<lparr>ref_count_ext := ref_count_ext v - 1\<rparr>"
      let ?s1 = "s\<lparr>variables := (variables s)(index \<mapsto> ?v')\<rparr>"
      from r nz v ne obtain s2 where
        s2: "(if ref_count_ext ?v' = 0 then todo_erase ?s1 (active_stream ?s1) index
              else Inr ?s1) = Inr s2"
        and fin: "(if ref_count_ext ?v' = 0 \<and> ref_count_int ?v' = 0
                   then jit_var_free E s2 index ?v' else Inr s2) = Inr s'"
        by (simp add: eq Let_def split: sum.splits)
      note st = released_ext_step [OF v s2]
      show ?thesis
      proof (cases "ref_count_ext ?v' = 0 \<and> ref_count_int ?v' = 0")
        case True
        with fin have f: "jit_var_free E s2 index ?v' = Inr s'" by simp
        from True have "ref_count_ext ?v' = 0" by simp
        with 1 [OF nz v ne refl refl s2 True] f st(2)
        have "released s2 s'" by blast
        with st(1) show ?thesis by (rule released_trans)
      next
        case False
        with fin have "s' = s2" by (auto split: if_splits)
        with st(1) show ?thesis by simp
      qed
    qed
  qed
next
  case (2 E s index)
  note eq = jit_dec_ref_int.simps [of E s index]
  show ?case
  proof (intro allI impI)
    fix s' assume r: "jit_dec_ref_int E s index = Inr s'"
    show "released s s'"
    proof (cases "index = 0 \<or> variables s = Map.empty")
      case True
      with r eq show ?thesis by simp
    next
      case nz: False
      from r nz obtain v where v: "variables s index = Some v" and ne: "ref_count_int v \<noteq> 0"
        by (auto simp: eq split: option.splits if_splits)
      let ?v' = "v\<lparr>ref_count_int := ref_count_int v - 1\<rparr>"
      let ?s1 = "s\<lparr>variables := (variables s)(index \<mapsto> ?v')\<rparr>"
      from r nz v ne have
        fin: "(if ref_count_ext ?v' = 0 \<and> ref_count_int ?v' = 0
               then jit_var_free E ?s1 index ?v' else Inr ?s1) = Inr s'"
        by (simp add: eq Let_def)
      note st = released_int_step [OF v]
      show ?thesis
      proof (cases "ref_count_ext ?v' = 0 \<and> ref_count_int ?v' = 0")
        case True
        with fin have f: "jit_var_free E ?s1 index ?v' = Inr s'" by simp
        from True have "ref_count_ext ?v' = 0" by simp
        with 2 [OF nz v ne refl refl True] f
        have "released ?s1 s'" by simp
        with st show ?thesis by (rule released_trans)
      next
        case False
        with fin have "s' = ?s1" by (auto split: if_splits)
        with st show ?thesis by simp
      qed
    qed
  qed
next
  case (3 E s index v)
  note eq = jit_var_free.simps [of E s index v]
  let ?s1 = "s\<lparr>variable_from_key := (variable_from_key s)(VariableKey E v := None)\<rparr>"
  let ?pre = "(if direct_pointer v then
                 (case variable_from_ptr ?s1 (data v) of
                    None \<Rightarrow> Inl (Fail ''jit_var_free(): direct pointer not found!'', ?s1)
                  | Some _ \<Rightarrow>
                      Inr (?s1\<lparr>variable_from_ptr := (variable_from_ptr ?s1)(data v := None)\<rparr>))
               else Inr ?s1)"
  show ?case
  proof (intro allI impI)
    fix s' assume r: "jit_var_free E s index v = Inr s'"
      and v: "variables s index = Some v" and e: "ref_count_ext v = 0"
    from r obtain s2 where s2: "?pre = Inr s2"
      by (simp add: eq Let_def split: sum.splits)
    let ?s3 = "s2\<lparr>variables := (variables s2)(index := None)\<rparr>"
    from r s2 obtain s4 s5 s6 where
      c4: "jit_dec_ref_int E ?s3 (fst (dep v)) = Inr s4" and
      c5: "jit_dec_ref_int E s4 (fst (snd (dep v))) = Inr s5" and
      c6: "jit_dec_ref_int E s5 (snd (snd (dep v))) = Inr s6" and
      c7: "jit_dec_ref_ext E s6 (extra_dep v) = Inr s'"
      by (simp add: eq Let_def split: sum.splits)
    have "released s ?s3"
      using released_free_step [OF v e, of "(variable_from_key s)(VariableKey E v := None)" s2] s2
      by simp
    moreover have "released ?s3 s4"
      using 3(1) [OF refl s2 refl] c4 by blast
    moreover have "released s4 s5"
      using 3(2) [OF refl s2 refl c4] c5 by blast
    moreover have "released s5 s6"
      using 3(3) [OF refl s2 refl c4 c5] c6 by blast
    moreover have "released s6 s'"
      using 3(4) [OF refl s2 refl c4 c5 c6] c7 by blast
    ultimately show "released s s'"
      by (blast intro: released_trans)
  qed
qed

lemma released_pending_ok:
  assumes "released s s'" "active_stream s = Some a" "pending_ok s a"
  shows "pending_ok s' a"
  using assms unfolding released_def pending_ok_def by blast

lemma released_other_stream:
  assumes "released s s'" "active_stream s \<noteq> Some b"
  shows "pending s' b = pending s b"
  using assms by (simp add: released_def)

subsection \<open>Pending sets\<close>

lemmas two_defs = state_two_def state_two_rel_def pending_def pending_ok_def ext_count_def

text \<open>
  C6, as the source has it. \<^verbatim>\<open>jit_dec_ref_ext\<close> erases from the pending set of the stream that
  is active at the time of the release, and leaves the pending sets of all other streams as
  they are: a variable does not record the stream it was appended on. An id whose external
  count goes from one to zero is gone from the pending set of the active stream, and the
  variable stays in the table, with count zero, while it is referenced internally. "Every
  pending id is externally referenced" is not an invariant of every stream; what holds is
  that, where it is true of the active stream, it is still true of that stream after
  \<^verbatim>\<open>jit_dec_ref_ext\<close> and \<^verbatim>\<open>jit_dec_ref_int\<close>, through all the frees they trigger, and after a
  zero-operand append, unless the count of the returned id wraps around.
\<close>

theorem dec_ref_ext_pending:
  "(jit_dec_ref_ext E s index = Inr s' \<and> active_stream s = Some a \<and> index \<noteq> 0 \<and>
    variables s index = Some v \<and> ref_count_ext v = 1 \<longrightarrow>
      index \<notin> pending s' a \<and>
      (ref_count_int v \<noteq> 0 \<longrightarrow> variables s' index = Some (v\<lparr>ref_count_ext := 0\<rparr>))) \<and>
   (jit_dec_ref_ext E s index = Inr s' \<and> active_stream s \<noteq> Some b \<longrightarrow>
      pending s' b = pending s b) \<and>
   (jit_dec_ref_ext E s index = Inr s' \<and> active_stream s = Some a \<and> pending_ok s a \<longrightarrow>
      pending_ok s' a) \<and>
   (jit_dec_ref_int E s index = Inr s' \<and> active_stream s = Some a \<and> pending_ok s a \<longrightarrow>
      pending_ok s' a) \<and>
   (jit_trace_append_0 E s ty st = Inr (idx, s') \<and> active_stream s = Some a \<and> pending_ok s a \<and>
    ext_count s idx \<noteq> - 1 \<longrightarrow> pending_ok s' a)"
proof (intro conjI impI)
  assume h: "jit_dec_ref_ext E s index = Inr s' \<and> active_stream s = Some a \<and> index \<noteq> 0 \<and>
    variables s index = Some v \<and> ref_count_ext v = 1"
  let ?v' = "v\<lparr>ref_count_ext := ref_count_ext v - 1\<rparr>"
  let ?s1 = "s\<lparr>variables := (variables s)(index \<mapsto> ?v')\<rparr>"
  from h have r: "jit_dec_ref_ext E s index = Inr s'" and a: "active_stream s = Some a" by simp_all
  from h have nz: "\<not> (index = 0 \<or> variables s = Map.empty)" by auto
  from h have v: "variables s index = Some v" and ne: "ref_count_ext v \<noteq> 0" by simp_all
  from r nz v ne obtain s2 where
    s2: "(if ref_count_ext ?v' = 0 then todo_erase ?s1 (active_stream ?s1) index
          else Inr ?s1) = Inr s2"
    and fin: "(if ref_count_ext ?v' = 0 \<and> ref_count_int ?v' = 0
               then jit_var_free E s2 index ?v' else Inr s2) = Inr s'"
    by (simp add: jit_dec_ref_ext.simps [of E s index] Let_def split: sum.splits)
  from h have z: "ref_count_ext v - 1 = 0" by simp
  note st = released_ext_step [OF v s2]
  from st(3) [OF z a] have out: "index \<notin> pending s2 a" .
  have "released s2 s'"
  proof (cases "ref_count_int v = 0")
    case True
    with fin z have "jit_var_free E s2 index ?v' = Inr s'" by simp
    with dec_ref_released(3) [of E s2 index ?v'] st(2) z show ?thesis by simp
  next
    case False
    with fin have "s' = s2" by simp
    then show ?thesis by simp
  qed
  with out show "index \<notin> pending s' a" unfolding released_def by blast
  show "variables s' index = Some (v\<lparr>ref_count_ext := 0\<rparr>)" if "ref_count_int v \<noteq> 0"
  proof -
    from that fin have "s' = s2" by simp
    with st(2) z show ?thesis by simp
  qed
next
  assume h: "jit_dec_ref_ext E s index = Inr s' \<and> active_stream s \<noteq> Some b"
  with dec_ref_released(1) [of E s index] have "released s s'" by blast
  with h show "pending s' b = pending s b"
    by (simp add: released_other_stream)
next
  assume "jit_dec_ref_ext E s index = Inr s' \<and> active_stream s = Some a \<and> pending_ok s a"
  with dec_ref_released(1) [of E s index] show "pending_ok s' a"
    by (blast intro: released_pending_ok)
next
  assume "jit_dec_ref_int E s index = Inr s' \<and> active_stream s = Some a \<and> pending_ok s a"
  with dec_ref_released(2) [of E s index] show "pending_ok s' a"
    by (blast intro: released_pending_ok)
next
  assume h: "jit_trace_append_0 E s ty st = Inr (idx, s') \<and> active_stream s = Some a \<and>
    pending_ok s a \<and> ext_count s idx \<noteq> - 1"
  then have f: "append_finish E s a
      (Variable0\<lparr>type := ty, size_v := 1, stmt := Some st, tsize := 1\<rparr>) = Inr (idx, s')"
    by (auto simp: jit_trace_append_0_def)
  have e: "ext_count s' idx = ext_count s idx + 1"
    using append_finish_ext(1) [OF f] by simp
  have o: "ext_count s' j = ext_count s j" if "j \<noteq> idx" for j
    using append_finish_frame [OF f that] by (simp add: ext_count_def)
  from h e have "ext_count s' idx \<noteq> 0"
    by (metis add.commute add_eq_0_iff)
  with h o append_finish_pending [OF f] show "pending_ok s' a"
    unfolding pending_ok_def by (metis insert_iff)
qed

theorem dec_ref_ext_pending_witness:
  "jit_dec_ref_ext env0 state_ab 1 = Inr state_ab_rel \<and> active_stream state_ab = Some 0 \<and>
   (1::u32) \<noteq> 0 \<and> variables state_ab 1 = Some (var_a\<lparr>ref_count_int := 1\<rparr>) \<and>
   ref_count_ext (var_a\<lparr>ref_count_int := 1\<rparr>) = 1 \<and> ref_count_int (var_a\<lparr>ref_count_int := 1\<rparr>) \<noteq> 0 \<and>
   1 \<notin> pending state_ab_rel 0 \<and>
   variables state_ab_rel 1 = Some (var_a\<lparr>ref_count_int := 1, ref_count_ext := 0\<rparr>) \<and>
   jit_dec_ref_ext env0 state_two 1 = Inr state_two_rel \<and> active_stream state_two \<noteq> Some 0 \<and>
   pending state_two_rel 0 = pending state_two 0 \<and>
   pending_ok state_ab 0 \<and> pending_ok state_ab_rel 0 \<and>
   jit_dec_ref_int env0 state_ab 1 = Inr (state_ab\<lparr>variables := [1 \<mapsto> var_a, 2 \<mapsto> var_b]\<rparr>) \<and>
   pending_ok (state_ab\<lparr>variables := [1 \<mapsto> var_a, 2 \<mapsto> var_b]\<rparr>) 0 \<and>
   outcome (jit_trace_append_0 env0 state_ab UInt32 ''mov.u32 $r0, %r0'') = Inr 3 \<and>
   ext_count state_ab 3 \<noteq> - 1 \<and>
   pending_ok (final (jit_trace_append_0 env0 state_ab UInt32 ''mov.u32 $r0, %r0'')) 0"
proof -
  have a: "active_stream state_ab = Some 0" by (simp add: state_ab_def)
  have a2: "active_stream state_two \<noteq> Some 0" by (simp add: state_two_def)
  have p: "pending_ok state_ab 0"
    by (simp add: two_defs session_defs Variable0_def)
  have v: "variables state_ab 1 = Some (var_a\<lparr>ref_count_int := 1\<rparr>)"
    "ref_count_ext (var_a\<lparr>ref_count_int := 1\<rparr>) = 1" "ref_count_int (var_a\<lparr>ref_count_int := 1\<rparr>) \<noteq> 0"
    by (simp_all add: session_defs Variable0_def)
  have two: "jit_dec_ref_ext env0 state_two 1 = Inr state_two_rel"
    by (simp add: run_defs session_defs two_defs) (auto simp: fun_eq_iff)
  have i: "jit_dec_ref_int env0 state_ab 1 =
      Inr (state_ab\<lparr>variables := [1 \<mapsto> var_a, 2 \<mapsto> var_b]\<rparr>)"
    by (simp add: run_defs session_defs) (auto simp: fun_eq_iff)
  have o: "outcome (jit_trace_append_0 env0 state_ab UInt32 ''mov.u32 $r0, %r0'') = Inr 3"
    by (simp add: run_defs session_defs outcome_def)
  have e: "ext_count state_ab 3 \<noteq> - 1"
    by (simp add: ext_count_def session_defs)
  have "1 \<notin> pending state_ab_rel 0 \<and>
      variables state_ab_rel 1 = Some (var_a\<lparr>ref_count_int := 1\<rparr>\<lparr>ref_count_ext := 0\<rparr>)"
    using dec_ref_ext_pending [of env0 state_ab 1 state_ab_rel 0 "var_a\<lparr>ref_count_int := 1\<rparr>",
        THEN conjunct1] state_ab_rel_reached a v
    by simp
  moreover have "pending state_two_rel 0 = pending state_two 0"
    using dec_ref_ext_pending [of env0 state_two 1 state_two_rel _ _ 0,
        THEN conjunct2, THEN conjunct1] two a2
    by simp
  moreover have "pending_ok state_ab_rel 0"
    using dec_ref_ext_pending [of env0 state_ab 1 state_ab_rel 0,
        THEN conjunct2, THEN conjunct2, THEN conjunct1] state_ab_rel_reached a p
    by simp
  moreover have "pending_ok (state_ab\<lparr>variables := [1 \<mapsto> var_a, 2 \<mapsto> var_b]\<rparr>) 0"
    using dec_ref_ext_pending [of env0 state_ab 1 _ 0,
        THEN conjunct2, THEN conjunct2, THEN conjunct2, THEN conjunct1] i a p
    by simp
  moreover have "pending_ok (final (jit_trace_append_0 env0 state_ab UInt32 ''mov.u32 $r0, %r0'')) 0"
    using dec_ref_ext_pending [of env0 state_ab _ _ 0,
        THEN conjunct2, THEN conjunct2, THEN conjunct2, THEN conjunct2]
      returns_final [OF o] a p e
    by simp
  ultimately show ?thesis
    using state_ab_rel_reached a a2 p v two i o e by simp
qed

text \<open>
  C6 as claimed fails when the releasing thread is on another stream than the one the
  variable is pending on: \<open>a\<close> was appended on stream 0, stream 1 is active when the host
  releases it. Its external count is zero afterwards, and it is still in the pending set of
  stream 0.
\<close>

theorem dec_ref_ext_other_stream:
  "pending_ok state_two 0 \<and> pending_ok state_two 1 \<and>
   jit_dec_ref_ext env0 state_two 1 = Inr state_two_rel \<and>
   ext_count state_two_rel 1 = 0 \<and> 1 \<in> pending state_two_rel 0 \<and>
   \<not> pending_ok state_two_rel 0"
proof -
  have "jit_dec_ref_ext env0 state_two 1 = Inr state_two_rel"
    by (simp add: run_defs session_defs two_defs) (auto simp: fun_eq_iff)
  moreover have "pending_ok state_two 0" "pending_ok state_two 1"
    by (simp_all add: two_defs session_defs Variable0_def)
  moreover have "ext_count state_two_rel 1 = 0" "1 \<in> pending state_two_rel 0"
    by (simp_all add: two_defs session_defs Variable0_def)
  ultimately show ?thesis by (auto simp: pending_ok_def)
qed

text \<open>
  Nor is it an invariant of the active stream: once \<^verbatim>\<open>jit_device_set\<close> has made stream 0
  active again in that state, the pending set of the active stream holds id 1, whose external
  count is zero.
\<close>

lemma pending_fails_after_switch:
  "active_stream (state_two_rel\<lparr>active_stream := Some 0\<rparr>) = Some 0 \<and>
   \<not> pending_ok (state_two_rel\<lparr>active_stream := Some 0\<rparr>) 0"
  by (simp add: two_defs session_defs Variable0_def)

subsection \<open>Pointer literals\<close>

text \<open>
  \<^verbatim>\<open>jit_var_register\<close> hands \<^verbatim>\<open>jit_trace_append(Variable &)\<close> a node without a statement, too.
\<close>

lemma jit_var_register_crashes:
  "sz \<noteq> 0 \<Longrightarrow> jit_var_register E s ty p sz free = Inl (Crash ''strdup(nullptr)'', s)"
  by (simp add: jit_var_register_def jit_trace_append_v_def Variable0_def)

text \<open>
  C8 fails on the code: no address can be registered. For an address that is not in the side
  table, \<^verbatim>\<open>jit_var_register_ptr\<close> fills in a \<^verbatim>\<open>Variable\<close> without a statement and passes it to
  \<^verbatim>\<open>jit_trace_append(Variable &)\<close>, which begins with \<^verbatim>\<open>strdup(v.stmt)\<close>: the call ends there, in
  the state it was made in. However a call of \<^verbatim>\<open>jit_var_register_ptr\<close> ends, it has recorded
  no address and created no variable, so the side table is never filled and there is no
  pointer literal to share.
\<close>

theorem register_ptr_first_call_crashes:
  "(variable_from_ptr s p = None \<longrightarrow>
      jit_var_register_ptr E s p = Inl (Crash ''strdup(nullptr)'', s)) \<and>
   variable_from_ptr (final (jit_var_register_ptr E s p)) = variable_from_ptr s \<and>
   dom (variables (final (jit_var_register_ptr E s p))) = dom (variables s)"
proof (intro conjI impI)
  assume "variable_from_ptr s p = None"
  then show "jit_var_register_ptr E s p = Inl (Crash ''strdup(nullptr)'', s)"
    by (simp add: jit_var_register_ptr_def jit_trace_append_v_def Variable0_def)
next
  show "variable_from_ptr (final (jit_var_register_ptr E s p)) = variable_from_ptr s"
    by (simp add: jit_var_register_ptr_def jit_trace_append_v_def Variable0_def final_def
        jit_inc_ref_ext_def jit_var_def jit_inc_ref_ext_v_def update_var_def
        split: option.splits)
next
  show "dom (variables (final (jit_var_register_ptr E s p))) = dom (variables s)"
    by (auto simp: jit_var_register_ptr_def jit_trace_append_v_def Variable0_def final_def
        jit_inc_ref_ext_def jit_var_def jit_inc_ref_ext_v_def update_var_def
        split: option.splits if_splits)
qed

text \<open>
  The first registration of an address, in the initial state and after two appends.
\<close>

theorem register_ptr_first_call_crashes_witness:
  "variable_from_ptr state0 0x7f0000001000 = None \<and>
   jit_var_register_ptr env0 state0 0x7f0000001000 = Inl (Crash ''strdup(nullptr)'', state0) \<and>
   variable_from_ptr state_ab 0x7f0000001000 = None \<and>
   jit_var_register_ptr env0 state_ab 0x7f0000001000 = Inl (Crash ''strdup(nullptr)'', state_ab)"
  using register_ptr_first_call_crashes [of state0 "0x7f0000001000" env0]
    register_ptr_first_call_crashes [of state_ab "0x7f0000001000" env0]
  by (simp add: state0_def state_ab_def)

section \<open>Common subexpression elimination\<close>

text \<open>
  Reuse is decided by the table alone: a node recorded under the key is returned as it is,
  whatever its data pointer says.
\<close>

lemma jit_trace_append_v_reuse:
  assumes "stmt v = Some st" "\<not> ENOKI_CUDA E"
    and "variable_from_key s (VariableKey E v) = Some idx" "variables s idx = Some w"
  shows "jit_trace_append_v E s v = Inr (idx, s)"
  using assms by (simp add: jit_trace_append_v_def jit_var_def)

text \<open>
  A resize leaves the CSE table keyed by the old size. After a release the stale entry points
  to a variable that is gone, and the next identical append ends in \<^verbatim>\<open>jit_fail\<close>.
\<close>

lemma stale_cse_entry_after_free:
  "outcome counter_session = Inl (Fail ''jit_var(): unknown variable!'')"
  by (simp add: counter_session_def then_do_def returning_def run_defs outcome_def)

lemma resize_session_result:
  "outcome resize_session = Inr (3, 3, 4, 5)"
  by (simp add: resize_session_def then_do_def returning_def run_defs outcome_def)

text \<open>
  C3 fails on the code. In the session above both broadcasts return the same copy (id 3, the
  second one found it in the CSE table and overwrote its size), the two \<open>abs\<close> nodes were keyed
  by the two sizes the copy had (ids 4 and 5), and after the last resize they are two live,
  unevaluated variables with the same type, statement, operands and size.
\<close>

theorem cse_duplicate_after_resize:
  "outcome resize_session = Inr (3, 3, 4, 5) \<and>
   variables (final resize_session) 4 = Some var_q \<and>
   variables (final resize_session) 5 = Some var_q \<and>
   data var_q = 0 \<and> \<not> cse_unique (final resize_session)"
proof -
  have v: "variables (final resize_session) 4 = Some var_q"
    "variables (final resize_session) 5 = Some var_q"
    by (simp_all add: resize_session_def then_do_def returning_def run_defs final_def var_q_def)
  have d: "data var_q = 0" by (simp add: var_q_def Variable0_def)
  have "\<not> cse_unique (final resize_session)"
  proof
    assume "cse_unique (final resize_session)"
    with v d have "(4::u32) = 5" unfolding cse_unique_def by blast
    then show False by simp
  qed
  with v d resize_session_result show ?thesis by simp
qed

text \<open>The two ids are distinct and carry the same tuple; neither is materialized.\<close>

theorem cse_duplicate_after_resize_witness:
  "(4::u32) \<noteq> 5 \<and>
   map_option spec_key (variables (final resize_session) 4) =
     Some (Float32, Some ''abs.$t0 $r0, $r1'', (3, 0, 0), 20) \<and>
   map_option spec_key (variables (final resize_session) 5) =
     Some (Float32, Some ''abs.$t0 $r0, $r1'', (3, 0, 0), 20) \<and>
   map_option data (variables (final resize_session) 4) = Some 0 \<and>
   map_option data (variables (final resize_session) 5) = Some 0"
  using cse_duplicate_after_resize
  by (simp add: var_q_def Variable0_def spec_key_def)

end
